theory Spec2Isabelle
  imports Main
begin

section \<open>Values, exceptions and objects\<close>

text \<open>
  The program is the class \<open>FaissIndexHNSWCagraBuilder\<close> of
  \<open>faiss_index_hnsw_cagra_builder.py\<close>: a dataclass of four configuration fields with
  a constructor from a dictionary, a conversion of a GPU build output into a CPU build
  output, and a writer of the CPU build output to a file. The embedding is a store of
  Python objects addressed by references, threaded through every operation together
  with a log of the calls made into the faiss library and of the attribute writes.
\<close>

text \<open>
  Modelled from the spec: the enum \<open>DataType\<close> is imported from
  \<open>index_build_parameters\<close>, which is not part of the sources at hand; the
  configuration surface names the two members FLOAT and BINARY.
\<close>

datatype DataType = FLOAT | BINARY

text \<open>
  The values a configuration field can hold. The annotations of a dataclass are not
  enforced when the program runs and \<open>from_dict\<close> takes a \<open>Dict[str, Any]\<close>, so a
  field holds whatever scalar it was given.
\<close>

datatype py_value = PyNone | PyBool bool | PyInt int | PyStr string | PyDataType DataType

text \<open>
  Exception classes, all of them subclasses of \<open>Exception\<close>. \<open>IOError\<close> is
  Python's alias of \<open>OSError\<close>, whose subclasses \<open>except IOError\<close> catches as well.
  An interrupt or an exit of the interpreter, which \<open>except Exception\<close> does not
  catch, is not an exception of this model.
\<close>

datatype exc_class =
  Exception | OSError | FileNotFoundError | PermissionError
  | RuntimeError | MemoryError | TypeError | AttributeError

fun is_IOError :: "exc_class \<Rightarrow> bool" where
  "is_IOError OSError = True"
| "is_IOError FileNotFoundError = True"
| "is_IOError PermissionError = True"
| "is_IOError _ = False"

text \<open>
  An exception: its class, the text \<open>str(e)\<close> gives, and the \<open>__cause__\<close> that
  \<open>raise ... from e\<close> sets.
\<close>

datatype py_exc = Exc (exc_class: exc_class) (message: string) (cause: "py_exc option")

type_synonym ref = nat

text \<open>
  The builder object: the four dataclass fields.
\<close>

record FaissIndexHNSWCagraBuilder =
  ef_search :: py_value
  ef_construction :: py_value
  base_level_only :: py_value
  vector_dtype :: py_value

text \<open>
  The two families of index of the faiss library: \<open>IndexHNSWCagra\<close> with
  \<open>IndexIDMap\<close> and \<open>write_index\<close>, and \<open>IndexBinaryHNSWCagra\<close> with
  \<open>IndexBinaryIDMap\<close> and \<open>write_index_binary\<close>.
\<close>

datatype index_family = Standard | Binary

text \<open>
  A CPU index: its class, the three scalar attributes the builder sets
  (\<open>hnsw.efConstruction\<close>, \<open>hnsw.efSearch\<close>, \<open>base_level_only\<close>) and the GPU index
  its graph was copied from, if any.
\<close>

record cpu_index_obj =
  family :: index_family
  hnsw_efConstruction :: py_value
  hnsw_efSearch :: py_value
  index_base_level_only :: py_value
  copied_from :: "ref option"

text \<open>
  The two build outputs. Both classes name their second field \<open>index_id_map\<close>; the
  prefixes keep the two record fields apart. A field holds a reference or \<open>None\<close>.
\<close>

record FaissGpuBuildIndexOutput =
  gpu_index :: "ref option"
  gpu_index_id_map :: "ref option"

record FaissCpuBuildIndexOutput =
  cpu_index :: "ref option"
  cpu_index_id_map :: "ref option"

text \<open>
  The objects of the store. An ID map (\<open>IndexIDMap\<close> or \<open>IndexBinaryIDMap\<close>) has the
  single attribute \<open>index\<close>.
\<close>

datatype py_obj =
  BuilderObj FaissIndexHNSWCagraBuilder
  | GpuIndexObj index_family
  | CpuIndexObj cpu_index_obj
  | IdMapObj "ref option"
  | GpuOutputObj FaissGpuBuildIndexOutput
  | CpuOutputObj FaissCpuBuildIndexOutput

text \<open>
  The log: one event for each call into the library and each attribute write, in
  program order, recorded when the call or the write is attempted: a call that raises
  is in the log.
\<close>

datatype event =
  NewIndex index_family
  | SetAttr ref string py_value
  | SetRef ref string "ref option"
  | CopyTo ref ref
  | Cleanup ref
  | WriteIndex "ref option" string
  | WriteIndexBinary "ref option" string

record world =
  heap :: "py_obj list"
  trace :: "event list"

text \<open>
  The behaviour of the code outside the sources on one run: which calls into faiss,
  and which \<open>cleanup\<close>, raise, and what they raise.
\<close>

record faiss_env =
  new_index_raises :: "index_family \<Rightarrow> py_exc option"
  setattr_raises :: "string \<Rightarrow> py_value \<Rightarrow> py_exc option"
  copyTo_raises :: "ref \<Rightarrow> ref \<Rightarrow> py_exc option"
  cleanup_raises :: "ref \<Rightarrow> py_exc option"
  write_index_raises :: "ref option \<Rightarrow> string \<Rightarrow> py_exc option"
  write_index_binary_raises :: "ref option \<Rightarrow> string \<Rightarrow> py_exc option"

section \<open>Statements: state and exceptions\<close>

type_synonym 'a action = "world \<Rightarrow> (py_exc + 'a) \<times> world"

definition ret :: "'a \<Rightarrow> 'a action" where
  "ret x w = (Inr x, w)"

definition raise :: "py_exc \<Rightarrow> 'a action" where
  "raise e w = (Inl e, w)"

definition and_then :: "'a action \<Rightarrow> ('a \<Rightarrow> 'b action) \<Rightarrow> 'b action" where
  "and_then m f w = (case m w of (Inl e, w') \<Rightarrow> (Inl e, w') | (Inr x, w') \<Rightarrow> f x w')"

definition try_except :: "'a action \<Rightarrow> (py_exc \<Rightarrow> 'a action) \<Rightarrow> 'a action" where
  "try_except m h w = (case m w of (Inl e, w') \<Rightarrow> h e w' | (Inr x, w') \<Rightarrow> (Inr x, w'))"

definition log :: "event \<Rightarrow> world \<Rightarrow> world" where
  "log ev w = w\<lparr>trace := trace w @ [ev]\<rparr>"

definition deref :: "world \<Rightarrow> ref \<Rightarrow> py_obj option" where
  "deref w r = (if r < length (heap w) then Some (heap w ! r) else None)"

definition store :: "ref \<Rightarrow> py_obj \<Rightarrow> world \<Rightarrow> world" where
  "store r obj w = w\<lparr>heap := (heap w)[r := obj]\<rparr>"

definition alloc :: "py_obj \<Rightarrow> ref action" where
  "alloc obj w = (Inr (length (heap w)), w\<lparr>heap := heap w @ [obj]\<rparr>)"

definition no_attribute :: "string \<Rightarrow> py_exc" where
  "no_attribute name = Exc AttributeError (''object has no attribute '' @ name) None"

section \<open>The operations outside the sources\<close>

text \<open>
  Modelled from the spec: the constructors \<open>faiss.IndexHNSWCagra()\<close> and
  \<open>faiss.IndexBinaryHNSWCagra()\<close> construct an empty CPU index of the given family
  with mutable scalar fields, or raise. The fields start at the library's defaults and
  nothing has been copied into the index.
\<close>

definition new_cpu_index :: "faiss_env \<Rightarrow> index_family \<Rightarrow> ref action" where
  "new_cpu_index env fam w =
     (case new_index_raises env fam of
        Some e \<Rightarrow> raise e (log (NewIndex fam) w)
      | None \<Rightarrow>
          alloc (CpuIndexObj \<lparr>family = fam, hnsw_efConstruction = PyInt 40,
                   hnsw_efSearch = PyInt 16, index_base_level_only = PyBool False,
                   copied_from = None\<rparr>) (log (NewIndex fam) w))"

definition IndexHNSWCagra :: "faiss_env \<Rightarrow> ref action" where
  "IndexHNSWCagra env = new_cpu_index env Standard"

definition IndexBinaryHNSWCagra :: "faiss_env \<Rightarrow> ref action" where
  "IndexBinaryHNSWCagra env = new_cpu_index env Binary"

text \<open>
  Modelled from the spec: a scalar field of a CPU index is mutable; the setter of the
  library stores the value as it is, or raises (on a value of the wrong type).
\<close>

definition set_index_attr ::
  "faiss_env \<Rightarrow> ref \<Rightarrow> string \<Rightarrow> (cpu_index_obj \<Rightarrow> cpu_index_obj) \<Rightarrow> py_value \<Rightarrow> unit action"
where
  "set_index_attr env r name upd v w =
     (case deref w r of
        Some (CpuIndexObj idx) \<Rightarrow>
          (case setattr_raises env name v of
             Some e \<Rightarrow> raise e (log (SetAttr r name v) w)
           | None \<Rightarrow> ret () (store r (CpuIndexObj (upd idx)) (log (SetAttr r name v) w)))
      | _ \<Rightarrow> raise (no_attribute name) w)"

definition set_hnsw_efConstruction :: "faiss_env \<Rightarrow> ref \<Rightarrow> py_value \<Rightarrow> unit action" where
  "set_hnsw_efConstruction env r v =
     set_index_attr env r ''hnsw.efConstruction'' (\<lambda>idx. idx\<lparr>hnsw_efConstruction := v\<rparr>) v"

definition set_hnsw_efSearch :: "faiss_env \<Rightarrow> ref \<Rightarrow> py_value \<Rightarrow> unit action" where
  "set_hnsw_efSearch env r v =
     set_index_attr env r ''hnsw.efSearch'' (\<lambda>idx. idx\<lparr>hnsw_efSearch := v\<rparr>) v"

definition set_base_level_only :: "faiss_env \<Rightarrow> ref \<Rightarrow> py_value \<Rightarrow> unit action" where
  "set_base_level_only env r v =
     set_index_attr env r ''base_level_only'' (\<lambda>idx. idx\<lparr>index_base_level_only := v\<rparr>) v"

text \<open>
  Modelled from the spec: \<open>gpu_index.copyTo(cpu_index)\<close> populates the destination
  CPU index from the source GPU index, or raises; the scalar fields of the destination
  are not part of what is copied. A receiver that is \<open>None\<close>, or no GPU index, has no
  method \<open>copyTo\<close>.
\<close>

definition copyTo :: "faiss_env \<Rightarrow> ref option \<Rightarrow> ref \<Rightarrow> unit action" where
  "copyTo env src dst w =
     (case src of
        None \<Rightarrow> raise (no_attribute ''copyTo'') w
      | Some g \<Rightarrow>
          (case (deref w g, deref w dst) of
             (Some (GpuIndexObj _), Some (CpuIndexObj idx)) \<Rightarrow>
               (case copyTo_raises env g dst of
                  Some e \<Rightarrow> raise e (log (CopyTo g dst) w)
                | None \<Rightarrow>
                    ret () (store dst (CpuIndexObj (idx\<lparr>copied_from := Some g\<rparr>))
                              (log (CopyTo g dst) w)))
           | _ \<Rightarrow> raise (no_attribute ''copyTo'') w))"

text \<open>
  The attribute \<open>index\<close> of an ID map: \<open>m.index = v\<close>. The target \<open>None\<close> has no
  attribute \<open>index\<close>.
\<close>

definition set_index :: "ref option \<Rightarrow> ref option \<Rightarrow> unit action" where
  "set_index target v w =
     (case target of
        None \<Rightarrow> raise (no_attribute ''index'') w
      | Some m \<Rightarrow>
          (case deref w m of
             Some (IdMapObj _) \<Rightarrow> ret () (store m (IdMapObj v) (log (SetRef m ''index'' v) w))
           | _ \<Rightarrow> raise (no_attribute ''index'') w))"

text \<open>
  Modelled from the spec: the classes \<open>FaissGpuBuildIndexOutput\<close> and
  \<open>FaissCpuBuildIndexOutput\<close> are imported from a module that is not part of the
  sources at hand. Each is a bundle of an index and an ID map with a \<open>cleanup\<close>
  operation that releases both resources; the release is recorded as an event and may
  raise, and it leaves the fields of the bundle as they are.
\<close>

definition get_gpu_index :: "ref \<Rightarrow> (ref option) action" where
  "get_gpu_index b w =
     (case deref w b of
        Some (GpuOutputObj out) \<Rightarrow> ret (gpu_index out) w
      | _ \<Rightarrow> raise (no_attribute ''gpu_index'') w)"

definition get_gpu_index_id_map :: "ref \<Rightarrow> (ref option) action" where
  "get_gpu_index_id_map b w =
     (case deref w b of
        Some (GpuOutputObj out) \<Rightarrow> ret (gpu_index_id_map out) w
      | _ \<Rightarrow> raise (no_attribute ''index_id_map'') w)"

definition set_gpu_index_id_map :: "ref \<Rightarrow> ref option \<Rightarrow> unit action" where
  "set_gpu_index_id_map b v w =
     (case deref w b of
        Some (GpuOutputObj out) \<Rightarrow>
          ret () (store b (GpuOutputObj (out\<lparr>gpu_index_id_map := v\<rparr>))
                    (log (SetRef b ''index_id_map'' v) w))
      | _ \<Rightarrow> raise (no_attribute ''index_id_map'') w)"

definition get_cpu_index_id_map :: "ref \<Rightarrow> (ref option) action" where
  "get_cpu_index_id_map b w =
     (case deref w b of
        Some (CpuOutputObj out) \<Rightarrow> ret (cpu_index_id_map out) w
      | _ \<Rightarrow> raise (no_attribute ''index_id_map'') w)"

definition cleanup :: "faiss_env \<Rightarrow> ref \<Rightarrow> unit action" where
  "cleanup env b w =
     (case deref w b of
        Some (GpuOutputObj _) \<Rightarrow>
          (case cleanup_raises env b of
             Some e \<Rightarrow> raise e (log (Cleanup b) w)
           | None \<Rightarrow> ret () (log (Cleanup b) w))
      | Some (CpuOutputObj _) \<Rightarrow>
          (case cleanup_raises env b of
             Some e \<Rightarrow> raise e (log (Cleanup b) w)
           | None \<Rightarrow> ret () (log (Cleanup b) w))
      | _ \<Rightarrow> raise (no_attribute ''cleanup'') w)"

definition new_FaissCpuBuildIndexOutput :: "ref option \<Rightarrow> ref option \<Rightarrow> ref action" where
  "new_FaissCpuBuildIndexOutput c m =
     alloc (CpuOutputObj \<lparr>cpu_index = c, cpu_index_id_map = m\<rparr>)"

text \<open>
  Modelled from the spec: \<open>faiss.write_index\<close> and \<open>faiss.write_index_binary\<close> take
  an ID map and a destination path and write the file, or raise. The file system is
  outside the store; the call is recorded as an event.
\<close>

definition write_index :: "faiss_env \<Rightarrow> ref option \<Rightarrow> string \<Rightarrow> unit action" where
  "write_index env m path w =
     (case write_index_raises env m path of
        Some e \<Rightarrow> raise e (log (WriteIndex m path) w)
      | None \<Rightarrow> ret () (log (WriteIndex m path) w))"

definition write_index_binary :: "faiss_env \<Rightarrow> ref option \<Rightarrow> string \<Rightarrow> unit action" where
  "write_index_binary env m path w =
     (case write_index_binary_raises env m path of
        Some e \<Rightarrow> raise e (log (WriteIndexBinary m path) w)
      | None \<Rightarrow> ret () (log (WriteIndexBinary m path) w))"

section \<open>The builder\<close>

text \<open>
  Reading a field of \<open>self\<close>.
\<close>

definition self_attr :: "ref \<Rightarrow> (FaissIndexHNSWCagraBuilder \<Rightarrow> py_value) \<Rightarrow> py_value action" where
  "self_attr self field w =
     (case deref w self of
        Some (BuilderObj b) \<Rightarrow> ret (field b) w
      | _ \<Rightarrow> raise (no_attribute ''of the builder'') w)"

text \<open>
  Modelled from the spec: the base class \<open>FaissCPUIndexBuilder\<close> is not part of the
  sources at hand and contributes no field: the parameter set has exactly four named
  fields.
\<close>

definition field_names :: "string list" where
  "field_names = [''ef_search'', ''ef_construction'', ''base_level_only'', ''vector_dtype'']"

definition field_or :: "(string \<times> py_value) list \<Rightarrow> string \<Rightarrow> py_value \<Rightarrow> py_value" where
  "field_or kwargs name dflt = (case map_of kwargs name of Some v \<Rightarrow> v | None \<Rightarrow> dflt)"

text \<open>
  The \<open>__init__\<close> the dataclass decorator generates, called as \<open>cls(**kwargs)\<close>: a
  keyword that names no field is a \<open>TypeError\<close>; a field with no keyword takes its
  default. The dictionary is the list of its items, in order, with distinct keys.
\<close>

definition init :: "(string \<times> py_value) list \<Rightarrow> ref action" where
  "init kwargs =
     (case filter (\<lambda>k. k \<notin> set field_names) (map fst kwargs) of
        k # _ \<Rightarrow> raise (Exc TypeError (''__init__() got an unexpected keyword argument '' @ k) None)
      | [] \<Rightarrow>
          alloc (BuilderObj
            \<lparr>ef_search = field_or kwargs ''ef_search'' (PyInt 100),
             ef_construction = field_or kwargs ''ef_construction'' (PyInt 100),
             base_level_only = field_or kwargs ''base_level_only'' (PyBool True),
             vector_dtype = field_or kwargs ''vector_dtype'' (PyDataType FLOAT)\<rparr>))"

text \<open>
  \<open>from_dict\<close>: \<open>not params\<close> holds of \<open>None\<close> and of the empty dictionary.
\<close>

definition from_dict :: "(string \<times> py_value) list option \<Rightarrow> ref action" where
  "from_dict params =
     (if params = None \<or> params = Some [] then init []
      else init (the params))"

definition do_convert_gpu_to_cpu_index :: "faiss_env \<Rightarrow> ref \<Rightarrow> ref \<Rightarrow> ref action" where
  "do_convert_gpu_to_cpu_index env self faiss_gpu_build_index_output =
     try_except
       (and_then (IndexHNSWCagra env) (\<lambda>cpu_index.
        and_then (self_attr self ef_construction) (\<lambda>v.
        and_then (set_hnsw_efConstruction env cpu_index v) (\<lambda>_.
        and_then (self_attr self ef_search) (\<lambda>v.
        and_then (set_hnsw_efSearch env cpu_index v) (\<lambda>_.
        and_then (self_attr self base_level_only) (\<lambda>v.
        and_then (set_base_level_only env cpu_index v) (\<lambda>_.
        and_then (get_gpu_index faiss_gpu_build_index_output) (\<lambda>g.
        and_then (copyTo env g cpu_index) (\<lambda>_.
        and_then (get_gpu_index_id_map faiss_gpu_build_index_output) (\<lambda>m.
        and_then (set_index m None) (\<lambda>_.
        and_then (get_gpu_index_id_map faiss_gpu_build_index_output) (\<lambda>index_id_map.
        and_then (set_gpu_index_id_map faiss_gpu_build_index_output None) (\<lambda>_.
        and_then (set_index index_id_map (Some cpu_index)) (\<lambda>_.
        and_then (cleanup env faiss_gpu_build_index_output) (\<lambda>_.
        new_FaissCpuBuildIndexOutput (Some cpu_index) index_id_map))))))))))))))))
       (\<lambda>e. raise (Exc Exception
                     (''Failed to convert GPU index to CPU index: '' @ message e) (Some e)))"

definition do_convert_gpu_to_cpu_binary_index :: "faiss_env \<Rightarrow> ref \<Rightarrow> ref \<Rightarrow> ref action" where
  "do_convert_gpu_to_cpu_binary_index env self faiss_gpu_build_index_output =
     try_except
       (and_then (IndexBinaryHNSWCagra env) (\<lambda>cpu_index.
        and_then (self_attr self ef_construction) (\<lambda>v.
        and_then (set_hnsw_efConstruction env cpu_index v) (\<lambda>_.
        and_then (self_attr self ef_search) (\<lambda>v.
        and_then (set_hnsw_efSearch env cpu_index v) (\<lambda>_.
        and_then (self_attr self base_level_only) (\<lambda>v.
        and_then (set_base_level_only env cpu_index v) (\<lambda>_.
        and_then (get_gpu_index faiss_gpu_build_index_output) (\<lambda>g.
        and_then (copyTo env g cpu_index) (\<lambda>_.
        and_then (get_gpu_index_id_map faiss_gpu_build_index_output) (\<lambda>m.
        and_then (set_index m None) (\<lambda>_.
        and_then (get_gpu_index_id_map faiss_gpu_build_index_output) (\<lambda>index_id_map.
        and_then (set_gpu_index_id_map faiss_gpu_build_index_output None) (\<lambda>_.
        and_then (set_index index_id_map (Some cpu_index)) (\<lambda>_.
        and_then (cleanup env faiss_gpu_build_index_output) (\<lambda>_.
        new_FaissCpuBuildIndexOutput (Some cpu_index) index_id_map))))))))))))))))
       (\<lambda>e. raise (Exc Exception
                     (''Failed to convert GPU index to CPU index: '' @ message e) (Some e)))"

definition convert_gpu_to_cpu_index :: "faiss_env \<Rightarrow> ref \<Rightarrow> ref \<Rightarrow> ref action" where
  "convert_gpu_to_cpu_index env self faiss_gpu_build_index_output =
     and_then (self_attr self vector_dtype) (\<lambda>dt.
       if dt \<noteq> PyDataType BINARY
       then do_convert_gpu_to_cpu_index env self faiss_gpu_build_index_output
       else do_convert_gpu_to_cpu_binary_index env self faiss_gpu_build_index_output)"

definition write_cpu_index :: "faiss_env \<Rightarrow> ref \<Rightarrow> ref \<Rightarrow> string \<Rightarrow> unit action" where
  "write_cpu_index env self cpu_build_index_output cpu_index_output_file_path =
     try_except
       (and_then (self_attr self vector_dtype) (\<lambda>dt.
        and_then
          (if dt \<noteq> PyDataType BINARY
           then and_then (get_cpu_index_id_map cpu_build_index_output) (\<lambda>m.
                  write_index env m cpu_index_output_file_path)
           else and_then (get_cpu_index_id_map cpu_build_index_output) (\<lambda>m.
                  write_index_binary env m cpu_index_output_file_path)) (\<lambda>_.
        cleanup env cpu_build_index_output)))
       (\<lambda>e. if is_IOError (exc_class e)
            then raise (Exc Exception
                          (''Failed to write index to file '' @ cpu_index_output_file_path
                             @ '': '' @ message e) (Some e))
            else raise (Exc Exception
                          (''Unexpected error while writing index to file: '' @ message e)
                          (Some e)))"


text \<open>
  The statements between \<open>try\<close> and \<open>except\<close> of the two conversion methods,
  which differ in the constructor they call and in nothing else.
\<close>

abbreviation try_body :: "faiss_env \<Rightarrow> index_family \<Rightarrow> ref \<Rightarrow> ref \<Rightarrow> ref action" where
  "try_body env fam self b \<equiv>
       (and_then (new_cpu_index env fam) (\<lambda>cpu_index.
        and_then (self_attr self ef_construction) (\<lambda>v.
        and_then (set_hnsw_efConstruction env cpu_index v) (\<lambda>_.
        and_then (self_attr self ef_search) (\<lambda>v.
        and_then (set_hnsw_efSearch env cpu_index v) (\<lambda>_.
        and_then (self_attr self base_level_only) (\<lambda>v.
        and_then (set_base_level_only env cpu_index v) (\<lambda>_.
        and_then (get_gpu_index b) (\<lambda>g.
        and_then (copyTo env g cpu_index) (\<lambda>_.
        and_then (get_gpu_index_id_map b) (\<lambda>m.
        and_then (set_index m None) (\<lambda>_.
        and_then (get_gpu_index_id_map b) (\<lambda>index_id_map.
        and_then (set_gpu_index_id_map b None) (\<lambda>_.
        and_then (set_index index_id_map (Some cpu_index)) (\<lambda>_.
        and_then (cleanup env b) (\<lambda>_.
        new_FaissCpuBuildIndexOutput (Some cpu_index) index_id_map))))))))))))))))"


abbreviation write_error :: "string \<Rightarrow> py_exc \<Rightarrow> py_exc" where
  "write_error path e \<equiv>
     (if is_IOError (exc_class e)
      then Exc Exception (''Failed to write index to file '' @ path @ '': '' @ message e) (Some e)
      else Exc Exception (''Unexpected error while writing index to file: '' @ message e)
             (Some e))"

abbreviation convert_error :: "py_exc \<Rightarrow> py_exc" where
  "convert_error e \<equiv>
     Exc Exception (''Failed to convert GPU index to CPU index: '' @ message e) (Some e)"

text \<open>
  The statements of the \<open>try\<close> block of the conversion in three parts, in program
  order: the construction and configuration of the CPU index and the copy, which
  return the CPU index; the three writes of the relocation, which return the ID map;
  and \<open>cleanup\<close> with the construction of the CPU build output.
\<close>

abbreviation configure_and_copy :: "faiss_env \<Rightarrow> index_family \<Rightarrow> ref \<Rightarrow> ref \<Rightarrow> ref action" where
  "configure_and_copy env fam self b \<equiv>
       (and_then (new_cpu_index env fam) (\<lambda>cpu_index.
        and_then (self_attr self ef_construction) (\<lambda>v.
        and_then (set_hnsw_efConstruction env cpu_index v) (\<lambda>_.
        and_then (self_attr self ef_search) (\<lambda>v.
        and_then (set_hnsw_efSearch env cpu_index v) (\<lambda>_.
        and_then (self_attr self base_level_only) (\<lambda>v.
        and_then (set_base_level_only env cpu_index v) (\<lambda>_.
        and_then (get_gpu_index b) (\<lambda>g.
        and_then (copyTo env g cpu_index) (\<lambda>_.
        ret cpu_index))))))))))"

abbreviation relocate :: "ref \<Rightarrow> ref \<Rightarrow> (ref option) action" where
  "relocate b c \<equiv>
       (and_then (get_gpu_index_id_map b) (\<lambda>m.
        and_then (set_index m None) (\<lambda>_.
        and_then (get_gpu_index_id_map b) (\<lambda>index_id_map.
        and_then (set_gpu_index_id_map b None) (\<lambda>_.
        and_then (set_index index_id_map (Some c)) (\<lambda>_.
        ret index_id_map))))))"

abbreviation cleanup_and_return :: "faiss_env \<Rightarrow> ref \<Rightarrow> ref \<Rightarrow> ref option \<Rightarrow> ref action" where
  "cleanup_and_return env b c m \<equiv>
       (and_then (cleanup env b) (\<lambda>_.
        new_FaissCpuBuildIndexOutput (Some c) m))"


section \<open>Concrete runs\<close>

text \<open>
  A library in which no call raises, and libraries in which one call does: the copy
  from the GPU, the write to a path that cannot be opened (faiss reports it as a
  \<open>RuntimeError\<close>), the \<open>cleanup\<close> of a build output.
\<close>

definition quiet_env :: faiss_env where
  "quiet_env =
     \<lparr>new_index_raises = (\<lambda>_. None), setattr_raises = (\<lambda>_ _. None),
      copyTo_raises = (\<lambda>_ _. None), cleanup_raises = (\<lambda>_. None),
      write_index_raises = (\<lambda>_ _. None), write_index_binary_raises = (\<lambda>_ _. None)\<rparr>"

definition copy_fails_env :: faiss_env where
  "copy_fails_env =
     quiet_env\<lparr>copyTo_raises := (\<lambda>_ _. Some (Exc RuntimeError ''copyTo failed'' None))\<rparr>"

definition unwritable_env :: faiss_env where
  "unwritable_env =
     quiet_env\<lparr>write_index_raises :=
                 (\<lambda>_ _. Some (Exc RuntimeError ''could not open file for writing'' None)),
               write_index_binary_raises :=
                 (\<lambda>_ _. Some (Exc RuntimeError ''could not open file for writing'' None))\<rparr>"

definition cleanup_fails_env :: faiss_env where
  "cleanup_fails_env =
     quiet_env\<lparr>cleanup_raises := (\<lambda>_. Some (Exc RuntimeError ''cleanup failed'' None))\<rparr>"

text \<open>
  The parameters of the round trip of the specification, the defaults, and a binary
  configuration.
\<close>

definition round_trip_params :: FaissIndexHNSWCagraBuilder where
  "round_trip_params =
     \<lparr>ef_search = PyInt 50, ef_construction = PyInt 200, base_level_only = PyBool False,
      vector_dtype = PyDataType FLOAT\<rparr>"

definition default_params :: FaissIndexHNSWCagraBuilder where
  "default_params =
     \<lparr>ef_search = PyInt 100, ef_construction = PyInt 100, base_level_only = PyBool True,
      vector_dtype = PyDataType FLOAT\<rparr>"

definition binary_params :: FaissIndexHNSWCagraBuilder where
  "binary_params =
     \<lparr>ef_search = PyInt 100, ef_construction = PyInt 100, base_level_only = PyBool True,
      vector_dtype = PyDataType BINARY\<rparr>"

text \<open>
  A world before the conversion: the builder at reference 0, a GPU index at 1, its ID
  map at 2 and the GPU build output at 3. A world before the write: the builder at 0,
  a CPU index at 1, its ID map at 2 and the CPU build output at 3.
\<close>

definition gpu_world :: "FaissIndexHNSWCagraBuilder \<Rightarrow> index_family \<Rightarrow> world" where
  "gpu_world cfg fam =
     \<lparr>heap = [BuilderObj cfg, GpuIndexObj fam, IdMapObj (Some 1),
              GpuOutputObj \<lparr>gpu_index = Some 1, gpu_index_id_map = Some 2\<rparr>],
      trace = []\<rparr>"

definition cpu_world :: "FaissIndexHNSWCagraBuilder \<Rightarrow> index_family \<Rightarrow> world" where
  "cpu_world cfg fam =
     \<lparr>heap = [BuilderObj cfg,
              CpuIndexObj \<lparr>family = fam, hnsw_efConstruction = ef_construction cfg,
                hnsw_efSearch = ef_search cfg, index_base_level_only = base_level_only cfg,
                copied_from = None\<rparr>,
              IdMapObj (Some 1),
              CpuOutputObj \<lparr>cpu_index = Some 1, cpu_index_id_map = Some 2\<rparr>],
      trace = []\<rparr>"

section \<open>Reasoning about statements\<close>

text \<open>
  A statement preserves a property of the world when the property holds after it,
  whether it returned or raised.
\<close>

definition preserves :: "(world \<Rightarrow> bool) \<Rightarrow> 'a action \<Rightarrow> bool" where
  "preserves P m \<longleftrightarrow> (\<forall>w. P w \<longrightarrow> P (snd (m w)))"

text \<open>
  A statement preserves a property when it raises, if the property holds whenever an
  exception leaves it.
\<close>

definition raising_preserves :: "(world \<Rightarrow> bool) \<Rightarrow> 'a action \<Rightarrow> bool" where
  "raising_preserves P m \<longleftrightarrow> (\<forall>w. P w \<longrightarrow> isl (fst (m w)) \<longrightarrow> P (snd (m w)))"

text \<open>
  The objects no statement of the builder writes to: builders, GPU indexes and CPU build
  outputs. Two worlds agree on them when each holds the same such objects at the same
  references.
\<close>

fun stable :: "py_obj \<Rightarrow> bool" where
  "stable (BuilderObj _) = True"
| "stable (GpuIndexObj _) = True"
| "stable (CpuOutputObj _) = True"
| "stable _ = False"

definition same_stable :: "world \<Rightarrow> world \<Rightarrow> bool" where
  "same_stable w0 w \<longleftrightarrow> (\<forall>r obj. stable obj \<longrightarrow> (deref w r = Some obj \<longleftrightarrow> deref w0 r = Some obj))"

text \<open>
  A world \<open>w1\<close> reached from \<open>w\<close> without a write of the relocation: the events
  since \<open>w\<close> hold no assignment to a reference and no \<open>cleanup\<close>, and every object of
  \<open>w\<close> other than a CPU index is in \<open>w1\<close> what it was.
\<close>

definition no_ref_write :: "world \<Rightarrow> world \<Rightarrow> bool" where
  "no_ref_write w w1 \<longleftrightarrow>
     (\<exists>evs. trace w1 = trace w @ evs \<and> (\<forall>x a v. SetRef x a v \<notin> set evs)
        \<and> (\<forall>x. Cleanup x \<notin> set evs))
     \<and> (\<forall>r obj. deref w r = Some obj \<longrightarrow> (\<forall>idx. obj \<noteq> CpuIndexObj idx) \<longrightarrow>
           deref w1 r = Some obj)"

subsection \<open>The store as a map\<close>

lemma deref_bound: "deref w r = Some obj \<Longrightarrow> r < length (heap w)"
  by (simp add: deref_def split: if_splits)

lemma deref_fresh: "deref w (length (heap w)) = None"
  by (simp add: deref_def)

lemma deref_log [simp]: "deref (log ev w) = deref w"
  by (rule ext) (simp add: deref_def log_def)

lemma heap_log [simp]: "heap (log ev w) = heap w"
  by (simp add: log_def)

lemma trace_log [simp]: "trace (log ev w) = trace w @ [ev]"
  by (simp add: log_def)

lemma trace_store [simp]: "trace (store r obj w) = trace w"
  by (simp add: store_def)

lemma length_store [simp]: "length (heap (store r obj w)) = length (heap w)"
  by (simp add: store_def)

lemma deref_store: "deref w r = Some old \<Longrightarrow> deref (store r obj w) = (deref w)(r \<mapsto> obj)"
  by (rule ext) (auto simp: deref_def store_def split: if_splits)

lemma alloc_effect:
  assumes "alloc obj w = (res, w')"
  shows "res = Inr (length (heap w))" and "deref w' = (deref w)(length (heap w) \<mapsto> obj)"
    and "length (heap w') = Suc (length (heap w))" and "trace w' = trace w"
  using assms by (auto simp: alloc_def deref_def nth_append fun_eq_iff)

subsection \<open>What a statement that returns has done\<close>

lemma and_then_InrE:
  assumes "and_then m f w = (Inr y, w')"
  obtains x w1 where "m w = (Inr x, w1)" and "f x w1 = (Inr y, w')"
  using assms by (auto simp: and_then_def split: prod.splits sum.splits)

lemma try_except_raise_Inr:
  assumes "try_except m (\<lambda>e. raise (h e)) w = (Inr y, w')"
  shows "m w = (Inr y, w')"
  using assms by (auto simp: try_except_def raise_def split: prod.splits sum.splits)

lemma new_cpu_index_InrE:
  assumes "new_cpu_index env fam w = (Inr c, w')"
  obtains "new_index_raises env fam = None" and "c = length (heap w)"
    and "deref w' = (deref w)(length (heap w) \<mapsto>
           CpuIndexObj \<lparr>family = fam, hnsw_efConstruction = PyInt 40,
             hnsw_efSearch = PyInt 16, index_base_level_only = PyBool False,
             copied_from = None\<rparr>)"
    and "length (heap w') = Suc (length (heap w))"
    and "trace w' = trace w @ [NewIndex fam]"
proof (cases "new_index_raises env fam")
  case None
  with assms have a: "alloc (CpuIndexObj \<lparr>family = fam, hnsw_efConstruction = PyInt 40,
             hnsw_efSearch = PyInt 16, index_base_level_only = PyBool False,
             copied_from = None\<rparr>) (log (NewIndex fam) w) = (Inr c, w')"
    by (simp add: new_cpu_index_def)
  show ?thesis using None alloc_effect [OF a] by (intro that) simp_all
next
  case (Some e)
  with assms show ?thesis by (simp add: new_cpu_index_def raise_def)
qed

lemma self_attr_InrE:
  assumes "self_attr self field w = (Inr v, w')"
  obtains cfg where "deref w self = Some (BuilderObj cfg)" and "v = field cfg" and "w' = w"
  using assms by (auto simp: self_attr_def ret_def raise_def split: option.splits py_obj.splits)

lemma set_index_attr_InrE:
  assumes "set_index_attr env r name upd v w = (Inr u, w')"
  obtains idx where "deref w r = Some (CpuIndexObj idx)" and "setattr_raises env name v = None"
    and "deref w' = (deref w)(r \<mapsto> CpuIndexObj (upd idx))"
    and "length (heap w') = length (heap w)"
    and "trace w' = trace w @ [SetAttr r name v]"
  using assms
  by (auto simp: set_index_attr_def ret_def raise_def deref_store
      split: option.splits py_obj.splits)

lemma get_gpu_index_InrE:
  assumes "get_gpu_index b w = (Inr g, w')"
  obtains mi where
    "deref w b = Some (GpuOutputObj \<lparr>gpu_index = g, gpu_index_id_map = mi\<rparr>)" and "w' = w"
proof -
  from assms obtain out where "deref w b = Some (GpuOutputObj out)" "g = gpu_index out" "w' = w"
    by (auto simp: get_gpu_index_def ret_def raise_def split: option.splits py_obj.splits)
  then show ?thesis by (cases out) (auto intro: that)
qed

lemma get_gpu_index_id_map_InrE:
  assumes "get_gpu_index_id_map b w = (Inr m, w')"
  obtains gi where
    "deref w b = Some (GpuOutputObj \<lparr>gpu_index = gi, gpu_index_id_map = m\<rparr>)" and "w' = w"
proof -
  from assms obtain out where "deref w b = Some (GpuOutputObj out)" "m = gpu_index_id_map out"
      "w' = w"
    by (auto simp: get_gpu_index_id_map_def ret_def raise_def split: option.splits py_obj.splits)
  then show ?thesis by (cases out) (auto intro: that)
qed

lemma copyTo_InrE:
  assumes "copyTo env src dst w = (Inr u, w')"
  obtains g fam idx where "src = Some g" and "deref w g = Some (GpuIndexObj fam)"
    and "deref w dst = Some (CpuIndexObj idx)" and "copyTo_raises env g dst = None"
    and "deref w' = (deref w)(dst \<mapsto> CpuIndexObj (idx\<lparr>copied_from := Some g\<rparr>))"
    and "length (heap w') = length (heap w)"
    and "trace w' = trace w @ [CopyTo g dst]"
  using assms
  by (auto simp: copyTo_def ret_def raise_def deref_store split: option.splits py_obj.splits)

lemma set_index_InrE:
  assumes "set_index target v w = (Inr u, w')"
  obtains m old where "target = Some m" and "deref w m = Some (IdMapObj old)"
    and "deref w' = (deref w)(m \<mapsto> IdMapObj v)"
    and "length (heap w') = length (heap w)"
    and "trace w' = trace w @ [SetRef m ''index'' v]"
  using assms
  by (auto simp: set_index_def ret_def raise_def deref_store split: option.splits py_obj.splits)

lemma set_gpu_index_id_map_InrE:
  assumes "set_gpu_index_id_map b v w = (Inr u, w')"
  obtains gi mi where
    "deref w b = Some (GpuOutputObj \<lparr>gpu_index = gi, gpu_index_id_map = mi\<rparr>)"
    and "deref w' = (deref w)(b \<mapsto> GpuOutputObj \<lparr>gpu_index = gi, gpu_index_id_map = v\<rparr>)"
    and "length (heap w') = length (heap w)"
    and "trace w' = trace w @ [SetRef b ''index_id_map'' v]"
proof -
  from assms obtain out where o: "deref w b = Some (GpuOutputObj out)"
    and "deref w' = (deref w)(b \<mapsto> GpuOutputObj (out\<lparr>gpu_index_id_map := v\<rparr>))"
    and "length (heap w') = length (heap w)"
    and "trace w' = trace w @ [SetRef b ''index_id_map'' v]"
    by (auto simp: set_gpu_index_id_map_def ret_def raise_def deref_store
        split: option.splits py_obj.splits)
  then show ?thesis by (cases out) (auto intro: that)
qed

lemma cleanup_InrE:
  assumes "cleanup env b w = (Inr u, w')"
  obtains "cleanup_raises env b = None" and "deref w' = deref w"
    and "length (heap w') = length (heap w)" and "trace w' = trace w @ [Cleanup b]"
  using assms
  by (auto simp: cleanup_def ret_def raise_def split: option.splits py_obj.splits)

lemma new_FaissCpuBuildIndexOutput_InrE:
  assumes "new_FaissCpuBuildIndexOutput c m w = (Inr out, w')"
  obtains "out = length (heap w)"
    and "deref w' = (deref w)(length (heap w) \<mapsto>
           CpuOutputObj \<lparr>cpu_index = c, cpu_index_id_map = m\<rparr>)"
    and "length (heap w') = Suc (length (heap w))"
    and "trace w' = trace w"
  using alloc_effect [OF assms [unfolded new_FaissCpuBuildIndexOutput_def]]
  by (auto intro: that)

lemmas step_elims = new_cpu_index_InrE self_attr_InrE set_index_attr_InrE get_gpu_index_InrE
  get_gpu_index_id_map_InrE copyTo_InrE set_index_InrE set_gpu_index_id_map_InrE cleanup_InrE
  new_FaissCpuBuildIndexOutput_InrE


lemma configure_InrE:
  assumes "and_then (new_cpu_index env fam) (\<lambda>cpu_index.
        and_then (self_attr self ef_construction) (\<lambda>v.
        and_then (set_hnsw_efConstruction env cpu_index v) (\<lambda>_.
        and_then (self_attr self ef_search) (\<lambda>v.
        and_then (set_hnsw_efSearch env cpu_index v) (\<lambda>_.
        and_then (self_attr self base_level_only) (\<lambda>v.
        and_then (set_base_level_only env cpu_index v) (\<lambda>_. k cpu_index))))))) w = (Inr out, w')"
  obtains cfg w1 where "deref w self = Some (BuilderObj cfg)"
    and "new_index_raises env fam = None"
    and "setattr_raises env ''hnsw.efConstruction'' (ef_construction cfg) = None"
    and "setattr_raises env ''hnsw.efSearch'' (ef_search cfg) = None"
    and "setattr_raises env ''base_level_only'' (base_level_only cfg) = None"
    and "deref w1 = (deref w)(length (heap w) \<mapsto> CpuIndexObj \<lparr>family = fam,
            hnsw_efConstruction = ef_construction cfg, hnsw_efSearch = ef_search cfg,
            index_base_level_only = base_level_only cfg, copied_from = None\<rparr>)"
    and "length (heap w1) = Suc (length (heap w))"
    and "trace w1 = trace w @
         [NewIndex fam,
          SetAttr (length (heap w)) ''hnsw.efConstruction'' (ef_construction cfg),
          SetAttr (length (heap w)) ''hnsw.efSearch'' (ef_search cfg),
          SetAttr (length (heap w)) ''base_level_only'' (base_level_only cfg)]"
    and "k (length (heap w)) w1 = (Inr out, w')"
  using assms deref_fresh [of w]
  unfolding set_hnsw_efConstruction_def set_hnsw_efSearch_def set_base_level_only_def
  by (elim and_then_InrE step_elims) (auto intro!: that split: if_splits)


lemma copy_InrE:
  assumes "and_then (get_gpu_index b) (\<lambda>g. and_then (copyTo env g c) (\<lambda>_. k)) w = (Inr out, w')"
  obtains g mi fam0 idx w1 where
    "deref w b = Some (GpuOutputObj \<lparr>gpu_index = Some g, gpu_index_id_map = mi\<rparr>)"
    and "deref w g = Some (GpuIndexObj fam0)"
    and "deref w c = Some (CpuIndexObj idx)"
    and "copyTo_raises env g c = None"
    and "deref w1 = (deref w)(c \<mapsto> CpuIndexObj (idx\<lparr>copied_from := Some g\<rparr>))"
    and "length (heap w1) = length (heap w)"
    and "trace w1 = trace w @ [CopyTo g c]"
    and "k w1 = (Inr out, w')"
  using assms
  by (elim and_then_InrE step_elims) (auto intro!: that split: if_splits)

lemma relocate_InrE:
  assumes "and_then (get_gpu_index_id_map b) (\<lambda>m.
        and_then (set_index m None) (\<lambda>_.
        and_then (get_gpu_index_id_map b) (\<lambda>index_id_map.
        and_then (set_gpu_index_id_map b None) (\<lambda>_.
        and_then (set_index index_id_map (Some c)) (\<lambda>_. k index_id_map))))) w = (Inr out, w')"
  obtains gi m old w1 where
    "deref w b = Some (GpuOutputObj \<lparr>gpu_index = gi, gpu_index_id_map = Some m\<rparr>)"
    and "deref w m = Some (IdMapObj old)"
    and "deref w1 = (deref w)(b \<mapsto> GpuOutputObj \<lparr>gpu_index = gi, gpu_index_id_map = None\<rparr>,
           m \<mapsto> IdMapObj (Some c))"
    and "length (heap w1) = length (heap w)"
    and "trace w1 = trace w @
           [SetRef m ''index'' None, SetRef b ''index_id_map'' None, SetRef m ''index'' (Some c)]"
    and "k (Some m) w1 = (Inr out, w')"
  using assms
  by (elim and_then_InrE step_elims) (auto intro!: that simp: fun_eq_iff split: if_splits)

lemma finish_InrE:
  assumes "and_then (cleanup env b) (\<lambda>_. new_FaissCpuBuildIndexOutput c m) w = (Inr out, w')"
  obtains "cleanup_raises env b = None" and "out = length (heap w)"
    and "deref w' = (deref w)(length (heap w) \<mapsto>
           CpuOutputObj \<lparr>cpu_index = c, cpu_index_id_map = m\<rparr>)"
    and "length (heap w') = Suc (length (heap w))"
    and "trace w' = trace w @ [Cleanup b]"
  using assms
  by (elim and_then_InrE step_elims) (auto intro!: that)

lemma try_body_success:
  assumes "try_body env fam self b w = (Inr out, w')"
  obtains cfg g m fam0 old where
      "deref w self = Some (BuilderObj cfg)"
    and "deref w b = Some (GpuOutputObj \<lparr>gpu_index = Some g, gpu_index_id_map = Some m\<rparr>)"
    and "deref w g = Some (GpuIndexObj fam0)"
    and "deref w m = Some (IdMapObj old)"
    and "new_index_raises env fam = None"
    and "setattr_raises env ''hnsw.efConstruction'' (ef_construction cfg) = None"
    and "setattr_raises env ''hnsw.efSearch'' (ef_search cfg) = None"
    and "setattr_raises env ''base_level_only'' (base_level_only cfg) = None"
    and "copyTo_raises env g (length (heap w)) = None"
    and "cleanup_raises env b = None"
    and "out = Suc (length (heap w))"
    and "deref w' = (deref w)
         (length (heap w) \<mapsto> CpuIndexObj \<lparr>family = fam,
            hnsw_efConstruction = ef_construction cfg, hnsw_efSearch = ef_search cfg,
            index_base_level_only = base_level_only cfg, copied_from = Some g\<rparr>,
          b \<mapsto> GpuOutputObj \<lparr>gpu_index = Some g, gpu_index_id_map = None\<rparr>,
          m \<mapsto> IdMapObj (Some (length (heap w))),
          Suc (length (heap w)) \<mapsto>
            CpuOutputObj \<lparr>cpu_index = Some (length (heap w)), cpu_index_id_map = Some m\<rparr>)"
    and "trace w' = trace w @
         [NewIndex fam,
          SetAttr (length (heap w)) ''hnsw.efConstruction'' (ef_construction cfg),
          SetAttr (length (heap w)) ''hnsw.efSearch'' (ef_search cfg),
          SetAttr (length (heap w)) ''base_level_only'' (base_level_only cfg),
          CopyTo g (length (heap w)),
          SetRef m ''index'' None,
          SetRef b ''index_id_map'' None,
          SetRef m ''index'' (Some (length (heap w))),
          Cleanup b]"
proof -
  let ?c = "length (heap w)"
  from assms obtain cfg w1 where
    cfg: "deref w self = Some (BuilderObj cfg)"
    and e1: "new_index_raises env fam = None"
      "setattr_raises env ''hnsw.efConstruction'' (ef_construction cfg) = None"
      "setattr_raises env ''hnsw.efSearch'' (ef_search cfg) = None"
      "setattr_raises env ''base_level_only'' (base_level_only cfg) = None"
    and d1: "deref w1 = (deref w)(?c \<mapsto> CpuIndexObj \<lparr>family = fam,
            hnsw_efConstruction = ef_construction cfg, hnsw_efSearch = ef_search cfg,
            index_base_level_only = base_level_only cfg, copied_from = None\<rparr>)"
    and l1: "length (heap w1) = Suc ?c"
    and t1: "trace w1 = trace w @
         [NewIndex fam,
          SetAttr ?c ''hnsw.efConstruction'' (ef_construction cfg),
          SetAttr ?c ''hnsw.efSearch'' (ef_search cfg),
          SetAttr ?c ''base_level_only'' (base_level_only cfg)]"
    and r1: "and_then (get_gpu_index b) (\<lambda>g. and_then (copyTo env g ?c) (\<lambda>_.
        and_then (get_gpu_index_id_map b) (\<lambda>m.
        and_then (set_index m None) (\<lambda>_.
        and_then (get_gpu_index_id_map b) (\<lambda>index_id_map.
        and_then (set_gpu_index_id_map b None) (\<lambda>_.
        and_then (set_index index_id_map (Some ?c)) (\<lambda>_.
        and_then (cleanup env b) (\<lambda>_.
        new_FaissCpuBuildIndexOutput (Some ?c) index_id_map)))))))) w1 = (Inr out, w')"
    by (rule configure_InrE)
  from r1 obtain g mi fam0 idx w2 where
    b1: "deref w1 b = Some (GpuOutputObj \<lparr>gpu_index = Some g, gpu_index_id_map = mi\<rparr>)"
    and g1: "deref w1 g = Some (GpuIndexObj fam0)"
    and c1: "deref w1 ?c = Some (CpuIndexObj idx)"
    and e2: "copyTo_raises env g ?c = None"
    and d2: "deref w2 = (deref w1)(?c \<mapsto> CpuIndexObj (idx\<lparr>copied_from := Some g\<rparr>))"
    and l2: "length (heap w2) = length (heap w1)"
    and t2: "trace w2 = trace w1 @ [CopyTo g ?c]"
    and r2: "and_then (get_gpu_index_id_map b) (\<lambda>m.
        and_then (set_index m None) (\<lambda>_.
        and_then (get_gpu_index_id_map b) (\<lambda>index_id_map.
        and_then (set_gpu_index_id_map b None) (\<lambda>_.
        and_then (set_index index_id_map (Some ?c)) (\<lambda>_.
        and_then (cleanup env b) (\<lambda>_.
        new_FaissCpuBuildIndexOutput (Some ?c) index_id_map)))))) w2 = (Inr out, w')"
    by (rule copy_InrE)
  from r2 obtain gi m old w3 where
    b2: "deref w2 b = Some (GpuOutputObj \<lparr>gpu_index = gi, gpu_index_id_map = Some m\<rparr>)"
    and m2: "deref w2 m = Some (IdMapObj old)"
    and d3: "deref w3 = (deref w2)(b \<mapsto> GpuOutputObj \<lparr>gpu_index = gi, gpu_index_id_map = None\<rparr>,
           m \<mapsto> IdMapObj (Some ?c))"
    and l3: "length (heap w3) = length (heap w2)"
    and t3: "trace w3 = trace w2 @
           [SetRef m ''index'' None, SetRef b ''index_id_map'' None, SetRef m ''index'' (Some ?c)]"
    and r3: "and_then (cleanup env b) (\<lambda>_.
        new_FaissCpuBuildIndexOutput (Some ?c) (Some m)) w3 = (Inr out, w')"
    by (rule relocate_InrE)
  from r3 have e4: "cleanup_raises env b = None" and o4: "out = length (heap w3)"
    and d4: "deref w' = (deref w3)(length (heap w3) \<mapsto>
           CpuOutputObj \<lparr>cpu_index = Some ?c, cpu_index_id_map = Some m\<rparr>)"
    and t4: "trace w' = trace w3 @ [Cleanup b]"
    by (auto elim: finish_InrE)
  have fresh: "deref w ?c = None" by (rule deref_fresh)
  from b1 d1 have bc: "b \<noteq> ?c" by (auto split: if_splits)
  from g1 d1 have gc: "g \<noteq> ?c" by (auto split: if_splits)
  from m2 d2 have mc: "m \<noteq> ?c" by (auto split: if_splits)
  from b1 d1 bc have b0: "deref w b = Some (GpuOutputObj \<lparr>gpu_index = Some g, gpu_index_id_map = mi\<rparr>)"
    by simp
  from b2 d2 bc b1 have gi: "gi = Some g" and mi: "mi = Some m" by simp_all
  from g1 d1 gc have g0: "deref w g = Some (GpuIndexObj fam0)" by simp
  from m2 d2 d1 mc have m0: "deref w m = Some (IdMapObj old)" by simp
  from b0 m0 have bm: "b \<noteq> m" by auto
  from c1 d1 have idx: "idx = \<lparr>family = fam,
            hnsw_efConstruction = ef_construction cfg, hnsw_efSearch = ef_search cfg,
            index_base_level_only = base_level_only cfg, copied_from = None\<rparr>" by simp
  show ?thesis
  proof (rule that [OF cfg _ g0 m0 e1 e2 e4])
    show "deref w b = Some (GpuOutputObj \<lparr>gpu_index = Some g, gpu_index_id_map = Some m\<rparr>)"
      using b0 mi by simp
    show "out = Suc ?c" using o4 l3 l2 l1 by simp
    show "trace w' = trace w @
         [NewIndex fam,
          SetAttr ?c ''hnsw.efConstruction'' (ef_construction cfg),
          SetAttr ?c ''hnsw.efSearch'' (ef_search cfg),
          SetAttr ?c ''base_level_only'' (base_level_only cfg),
          CopyTo g ?c,
          SetRef m ''index'' None,
          SetRef b ''index_id_map'' None,
          SetRef m ''index'' (Some ?c),
          Cleanup b]"
      using t4 t3 t2 t1 by simp
    show "deref w' = (deref w)
         (?c \<mapsto> CpuIndexObj \<lparr>family = fam,
            hnsw_efConstruction = ef_construction cfg, hnsw_efSearch = ef_search cfg,
            index_base_level_only = base_level_only cfg, copied_from = Some g\<rparr>,
          b \<mapsto> GpuOutputObj \<lparr>gpu_index = Some g, gpu_index_id_map = None\<rparr>,
          m \<mapsto> IdMapObj (Some ?c),
          Suc ?c \<mapsto>
            CpuOutputObj \<lparr>cpu_index = Some ?c, cpu_index_id_map = Some m\<rparr>)"
      unfolding d4 d3 d2 d1 l3 l2 l1 idx gi using bc mc bm
      by (auto simp: fun_eq_iff)
  qed
qed


lemma convert_gpu_to_cpu_index_success:
  assumes "convert_gpu_to_cpu_index env self b w = (Inr out, w')"
  obtains cfg g m fam0 old fam where
      "deref w self = Some (BuilderObj cfg)"
    and "fam = (if vector_dtype cfg \<noteq> PyDataType BINARY then Standard else Binary)"
    and "deref w b = Some (GpuOutputObj \<lparr>gpu_index = Some g, gpu_index_id_map = Some m\<rparr>)"
    and "deref w g = Some (GpuIndexObj fam0)"
    and "deref w m = Some (IdMapObj old)"
    and "new_index_raises env fam = None"
    and "setattr_raises env ''hnsw.efConstruction'' (ef_construction cfg) = None"
    and "setattr_raises env ''hnsw.efSearch'' (ef_search cfg) = None"
    and "setattr_raises env ''base_level_only'' (base_level_only cfg) = None"
    and "copyTo_raises env g (length (heap w)) = None"
    and "cleanup_raises env b = None"
    and "out = Suc (length (heap w))"
    and "deref w' = (deref w)
         (length (heap w) \<mapsto> CpuIndexObj \<lparr>family = fam,
            hnsw_efConstruction = ef_construction cfg, hnsw_efSearch = ef_search cfg,
            index_base_level_only = base_level_only cfg, copied_from = Some g\<rparr>,
          b \<mapsto> GpuOutputObj \<lparr>gpu_index = Some g, gpu_index_id_map = None\<rparr>,
          m \<mapsto> IdMapObj (Some (length (heap w))),
          Suc (length (heap w)) \<mapsto>
            CpuOutputObj \<lparr>cpu_index = Some (length (heap w)), cpu_index_id_map = Some m\<rparr>)"
    and "trace w' = trace w @
         [NewIndex fam,
          SetAttr (length (heap w)) ''hnsw.efConstruction'' (ef_construction cfg),
          SetAttr (length (heap w)) ''hnsw.efSearch'' (ef_search cfg),
          SetAttr (length (heap w)) ''base_level_only'' (base_level_only cfg),
          CopyTo g (length (heap w)),
          SetRef m ''index'' None,
          SetRef b ''index_id_map'' None,
          SetRef m ''index'' (Some (length (heap w))),
          Cleanup b]"
proof -
  from assms obtain dt w1 where rd: "self_attr self vector_dtype w = (Inr dt, w1)"
    and rest: "(if dt \<noteq> PyDataType BINARY
       then do_convert_gpu_to_cpu_index env self b
       else do_convert_gpu_to_cpu_binary_index env self b) w1 = (Inr out, w')"
    unfolding convert_gpu_to_cpu_index_def by (rule and_then_InrE)
  from rd obtain cfg0 where c0: "deref w self = Some (BuilderObj cfg0)"
    and dt: "dt = vector_dtype cfg0" and w1: "w1 = w"
    by (rule self_attr_InrE)
  define fam where "fam = (if vector_dtype cfg0 \<noteq> PyDataType BINARY then Standard else Binary)"
  from rest dt w1 have "try_body env fam self b w = (Inr out, w')"
    by (auto simp: fam_def do_convert_gpu_to_cpu_index_def do_convert_gpu_to_cpu_binary_index_def
        IndexHNSWCagra_def IndexBinaryHNSWCagra_def
        dest!: try_except_raise_Inr split: if_splits)
  then show ?thesis
  proof (cases rule: try_body_success)
    case (1 cfg g m fam0 old)
    from 1(1) c0 have "cfg0 = cfg" by simp
    then have "fam = (if vector_dtype cfg \<noteq> PyDataType BINARY then Standard else Binary)"
      by (simp add: fam_def)
    then show ?thesis
      using 1 by (rule_tac that [of cfg fam g m fam0 old]) simp_all
  qed
qed


subsection \<open>Composition\<close>

lemma preserves_ret: "preserves P (ret x)"
  by (simp add: preserves_def ret_def)

lemma preserves_raise: "preserves P (raise e)"
  by (simp add: preserves_def raise_def)

lemma preserves_and_then:
  assumes "preserves P m" and "\<And>x. preserves P (f x)"
  shows "preserves P (and_then m f)"
  unfolding preserves_def and_then_def
proof (intro allI impI)
  fix w assume "P w"
  with assms(1) have 1: "P (snd (m w))" by (simp add: preserves_def)
  show "P (snd (case m w of (Inl e, w') \<Rightarrow> (Inl e, w') | (Inr x, w') \<Rightarrow> f x w'))"
  proof (cases "m w")
    case (Pair res w1)
    with 1 have "P w1" by simp
    with assms(2) have "\<And>x. P (snd (f x w1))" by (simp add: preserves_def)
    with Pair \<open>P w1\<close> show ?thesis by (cases res) simp_all
  qed
qed

lemma preserves_try_except:
  assumes "preserves P m" and "\<And>e. preserves P (h e)"
  shows "preserves P (try_except m h)"
  unfolding preserves_def try_except_def
proof (intro allI impI)
  fix w assume "P w"
  with assms(1) have 1: "P (snd (m w))" by (simp add: preserves_def)
  show "P (snd (case m w of (Inl e, w') \<Rightarrow> h e w' | (Inr x, w') \<Rightarrow> (Inr x, w')))"
  proof (cases "m w")
    case (Pair res w1)
    with 1 have "P w1" by simp
    with assms(2) have "\<And>e. P (snd (h e w1))" by (simp add: preserves_def)
    with Pair \<open>P w1\<close> show ?thesis by (cases res) simp_all
  qed
qed

lemma preserves_if:
  "preserves P a \<Longrightarrow> preserves P b \<Longrightarrow> preserves P (if c then a else b)"
  by simp

lemma raising_preserves_and_then:
  assumes "preserves P m" and "\<And>x. raising_preserves P (f x)"
  shows "raising_preserves P (and_then m f)"
  unfolding raising_preserves_def and_then_def
proof (intro allI impI)
  fix w assume "P w"
    and r: "isl (fst (case m w of (Inl e, w') \<Rightarrow> (Inl e, w') | (Inr x, w') \<Rightarrow> f x w'))"
  with assms(1) have 1: "P (snd (m w))" by (simp add: preserves_def)
  show "P (snd (case m w of (Inl e, w') \<Rightarrow> (Inl e, w') | (Inr x, w') \<Rightarrow> f x w'))"
  proof (cases "m w")
    case (Pair res w1)
    with 1 have "P w1" by simp
    with assms(2) have "\<And>x. isl (fst (f x w1)) \<Longrightarrow> P (snd (f x w1))"
      by (simp add: raising_preserves_def)
    with Pair \<open>P w1\<close> r show ?thesis by (cases res) simp_all
  qed
qed

lemma raising_preserves_alloc: "raising_preserves P (alloc obj)"
  by (simp add: raising_preserves_def alloc_def)

lemma raising_preserves_try_except:
  assumes "raising_preserves P m" and "\<And>e. preserves P (h e)"
  shows "raising_preserves P (try_except m h)"
  unfolding raising_preserves_def try_except_def
proof (intro allI impI)
  fix w assume p: "P w"
    and r: "isl (fst (case m w of (Inl e, w') \<Rightarrow> h e w' | (Inr x, w') \<Rightarrow> (Inr x, w')))"
  show "P (snd (case m w of (Inl e, w') \<Rightarrow> h e w' | (Inr x, w') \<Rightarrow> (Inr x, w')))"
  proof (cases "m w")
    case (Pair res w1)
    show ?thesis
    proof (cases res)
      case (Inl e)
      from assms(1) have "P w \<longrightarrow> isl (fst (m w)) \<longrightarrow> P (snd (m w))"
        unfolding raising_preserves_def by blast
      with Pair Inl p have "P w1" by simp
      with assms(2) have "P (snd (h e w1))" by (simp add: preserves_def)
      with Pair Inl show ?thesis by simp
    next
      case (Inr x)
      with Pair r show ?thesis by simp
    qed
  qed
qed

subsection \<open>The objects no statement touches\<close>

lemma same_stable_refl: "same_stable w w"
  by (simp add: same_stable_def)

lemma same_stable_log [simp]: "same_stable w0 (log ev w) = same_stable w0 w"
  by (simp add: same_stable_def)

lemma same_stable_store:
  assumes "same_stable w0 w" and "deref w r = Some old" and "\<not> stable old" and "\<not> stable obj"
  shows "same_stable w0 (store r obj w)"
  unfolding same_stable_def
proof (intro allI impI)
  fix r' obj'
  assume st: "stable obj'"
  with assms(1) have eq: "deref w r' = Some obj' \<longleftrightarrow> deref w0 r' = Some obj'"
    by (simp add: same_stable_def)
  from assms(2) have d: "deref (store r obj w) = (deref w)(r \<mapsto> obj)"
    by (rule deref_store)
  show "deref (store r obj w) r' = Some obj' \<longleftrightarrow> deref w0 r' = Some obj'"
    using eq st assms(2,3,4) unfolding d by (cases "r' = r") auto
qed

lemma same_stable_alloc:
  assumes "same_stable w0 w" and "\<not> stable obj"
  shows "same_stable w0 (snd (alloc obj w))"
proof -
  obtain res w' where a: "alloc obj w = (res, w')" by (cases "alloc obj w")
  have fresh: "deref w (length (heap w)) = None" by (rule deref_fresh)
  have d: "deref w' = (deref w)(length (heap w) \<mapsto> obj)" by (rule alloc_effect(2) [OF a])
  have "same_stable w0 w'"
    unfolding same_stable_def
  proof (intro allI impI)
    fix r' obj'
    assume st: "stable obj'"
    with assms(1) have eq: "deref w r' = Some obj' \<longleftrightarrow> deref w0 r' = Some obj'"
      by (simp add: same_stable_def)
    show "deref w' r' = Some obj' \<longleftrightarrow> deref w0 r' = Some obj'"
      using eq st assms(2) fresh unfolding d by (cases "r' = length (heap w)") auto
  qed
  with a show ?thesis by simp
qed

lemma preserves_new_cpu_index: "preserves (same_stable w0) (new_cpu_index env fam)"
  by (auto simp: preserves_def new_cpu_index_def raise_def same_stable_alloc split: option.splits)

lemma preserves_self_attr: "preserves P (self_attr self field)"
  by (auto simp: preserves_def self_attr_def raise_def ret_def split: option.splits py_obj.splits)

lemma preserves_set_index_attr: "preserves (same_stable w0) (set_index_attr env r name upd v)"
  by (auto simp: preserves_def set_index_attr_def raise_def ret_def
      intro: same_stable_store split: option.splits py_obj.splits)

lemma preserves_get_gpu_index: "preserves P (get_gpu_index b)"
  by (auto simp: preserves_def get_gpu_index_def raise_def ret_def split: option.splits py_obj.splits)

lemma preserves_get_gpu_index_id_map: "preserves P (get_gpu_index_id_map b)"
  by (auto simp: preserves_def get_gpu_index_id_map_def raise_def ret_def
      split: option.splits py_obj.splits)

lemma preserves_get_cpu_index_id_map: "preserves P (get_cpu_index_id_map b)"
  by (auto simp: preserves_def get_cpu_index_id_map_def raise_def ret_def
      split: option.splits py_obj.splits)

lemma preserves_copyTo: "preserves (same_stable w0) (copyTo env src dst)"
  by (auto simp: preserves_def copyTo_def raise_def ret_def
      intro: same_stable_store split: option.splits py_obj.splits)

lemma preserves_set_index: "preserves (same_stable w0) (set_index target v)"
  by (auto simp: preserves_def set_index_def raise_def ret_def
      intro: same_stable_store split: option.splits py_obj.splits)

lemma preserves_set_gpu_index_id_map: "preserves (same_stable w0) (set_gpu_index_id_map b v)"
  by (auto simp: preserves_def set_gpu_index_id_map_def raise_def ret_def
      intro: same_stable_store split: option.splits py_obj.splits)

lemma preserves_cleanup: "preserves (same_stable w0) (cleanup env b)"
  by (auto simp: preserves_def cleanup_def raise_def ret_def split: option.splits py_obj.splits)

lemma preserves_write_index: "preserves (same_stable w0) (write_index env m path)"
  by (auto simp: preserves_def write_index_def raise_def ret_def split: option.splits)

lemma preserves_write_index_binary: "preserves (same_stable w0) (write_index_binary env m path)"
  by (auto simp: preserves_def write_index_binary_def raise_def ret_def split: option.splits)

lemmas preserves_intros = preserves_and_then preserves_try_except preserves_if preserves_ret
  preserves_raise preserves_new_cpu_index preserves_self_attr preserves_set_index_attr
  preserves_get_gpu_index preserves_get_gpu_index_id_map preserves_get_cpu_index_id_map
  preserves_copyTo preserves_set_index preserves_set_gpu_index_id_map preserves_cleanup
  preserves_write_index preserves_write_index_binary

lemma raising_preserves_try_body: "raising_preserves (same_stable w0) (try_body env fam self b)"
  unfolding set_hnsw_efConstruction_def set_hnsw_efSearch_def set_base_level_only_def
    new_FaissCpuBuildIndexOutput_def
  by (intro raising_preserves_and_then raising_preserves_alloc preserves_intros)

lemma raising_preserves_convert:
  "raising_preserves (same_stable w0) (convert_gpu_to_cpu_index env self b)"
  unfolding convert_gpu_to_cpu_index_def do_convert_gpu_to_cpu_index_def
    do_convert_gpu_to_cpu_binary_index_def IndexHNSWCagra_def IndexBinaryHNSWCagra_def
  apply (rule raising_preserves_and_then)
   apply (rule preserves_self_attr)
  apply (simp only: split: if_split)
  apply (intro conjI impI raising_preserves_try_except raising_preserves_try_body preserves_raise)
  done

lemma preserves_write_cpu_index:
  "preserves (same_stable w0) (write_cpu_index env self b path)"
  unfolding write_cpu_index_def
  by (intro preserves_intros)


subsection \<open>Construction from a dictionary\<close>

lemma init_known_keys:
  assumes "set (map fst kwargs) \<subseteq> set field_names"
  shows "init kwargs w =
     (Inr (length (heap w)),
      w\<lparr>heap := heap w @ [BuilderObj
            \<lparr>ef_search = field_or kwargs ''ef_search'' (PyInt 100),
             ef_construction = field_or kwargs ''ef_construction'' (PyInt 100),
             base_level_only = field_or kwargs ''base_level_only'' (PyBool True),
             vector_dtype = field_or kwargs ''vector_dtype'' (PyDataType FLOAT)\<rparr>]\<rparr>)"
proof -
  from assms have "filter (\<lambda>k. k \<notin> set field_names) (map fst kwargs) = []"
    by (auto simp: filter_empty_conv)
  then show ?thesis by (simp add: init_def alloc_def)
qed

lemma init_unknown_key:
  assumes "k \<in> set (map fst kwargs)" and "k \<notin> set field_names"
  shows "\<exists>e. init kwargs w = (Inl e, w) \<and> exc_class e = TypeError"
proof -
  from assms have "filter (\<lambda>k. k \<notin> set field_names) (map fst kwargs) \<noteq> []"
    by (auto simp: filter_empty_conv)
  then obtain k' ks where "filter (\<lambda>k. k \<notin> set field_names) (map fst kwargs) = k' # ks"
    by (cases "filter (\<lambda>k. k \<notin> set field_names) (map fst kwargs)") auto
  then show ?thesis by (simp add: init_def raise_def)
qed

lemma from_dict_Some: "from_dict (Some kwargs) = init kwargs"
  by (cases kwargs) (simp_all add: from_dict_def)

subsection \<open>The concrete runs, evaluated\<close>

lemmas run_defs = ret_def raise_def and_then_def try_except_def log_def deref_def store_def
  alloc_def no_attribute_def new_cpu_index_def IndexHNSWCagra_def IndexBinaryHNSWCagra_def
  set_index_attr_def set_hnsw_efConstruction_def set_hnsw_efSearch_def set_base_level_only_def
  copyTo_def set_index_def get_gpu_index_def get_gpu_index_id_map_def set_gpu_index_id_map_def
  get_cpu_index_id_map_def cleanup_def new_FaissCpuBuildIndexOutput_def write_index_def
  write_index_binary_def self_attr_def convert_gpu_to_cpu_index_def
  do_convert_gpu_to_cpu_index_def do_convert_gpu_to_cpu_binary_index_def write_cpu_index_def
  quiet_env_def copy_fails_env_def unwritable_env_def cleanup_fails_env_def round_trip_params_def
  default_params_def binary_params_def gpu_world_def cpu_world_def

lemma round_trip_converts:
  "convert_gpu_to_cpu_index quiet_env 0 3 (gpu_world round_trip_params Standard) =
     (Inr 5,
      \<lparr>heap = [BuilderObj round_trip_params, GpuIndexObj Standard, IdMapObj (Some 4),
              GpuOutputObj \<lparr>gpu_index = Some 1, gpu_index_id_map = None\<rparr>,
              CpuIndexObj \<lparr>family = Standard, hnsw_efConstruction = PyInt 200,
                hnsw_efSearch = PyInt 50, index_base_level_only = PyBool False,
                copied_from = Some 1\<rparr>,
              CpuOutputObj \<lparr>cpu_index = Some 4, cpu_index_id_map = Some 2\<rparr>],
       trace = [NewIndex Standard, SetAttr 4 ''hnsw.efConstruction'' (PyInt 200),
                SetAttr 4 ''hnsw.efSearch'' (PyInt 50),
                SetAttr 4 ''base_level_only'' (PyBool False), CopyTo 1 4,
                SetRef 2 ''index'' None, SetRef 3 ''index_id_map'' None,
                SetRef 2 ''index'' (Some 4), Cleanup 3]\<rparr>)"
  by (simp add: run_defs)

lemma binary_converts:
  "convert_gpu_to_cpu_index quiet_env 0 3 (gpu_world binary_params Binary) =
     (Inr 5,
      \<lparr>heap = [BuilderObj binary_params, GpuIndexObj Binary, IdMapObj (Some 4),
              GpuOutputObj \<lparr>gpu_index = Some 1, gpu_index_id_map = None\<rparr>,
              CpuIndexObj \<lparr>family = Binary, hnsw_efConstruction = PyInt 100,
                hnsw_efSearch = PyInt 100, index_base_level_only = PyBool True,
                copied_from = Some 1\<rparr>,
              CpuOutputObj \<lparr>cpu_index = Some 4, cpu_index_id_map = Some 2\<rparr>],
       trace = [NewIndex Binary, SetAttr 4 ''hnsw.efConstruction'' (PyInt 100),
                SetAttr 4 ''hnsw.efSearch'' (PyInt 100),
                SetAttr 4 ''base_level_only'' (PyBool True), CopyTo 1 4,
                SetRef 2 ''index'' None, SetRef 3 ''index_id_map'' None,
                SetRef 2 ''index'' (Some 4), Cleanup 3]\<rparr>)"
  by (simp add: run_defs)

lemma copy_failure_run:
  "convert_gpu_to_cpu_index copy_fails_env 0 3 (gpu_world round_trip_params Standard) =
     (Inl (Exc Exception ''Failed to convert GPU index to CPU index: copyTo failed''
             (Some (Exc RuntimeError ''copyTo failed'' None))),
      \<lparr>heap = [BuilderObj round_trip_params, GpuIndexObj Standard, IdMapObj (Some 1),
              GpuOutputObj \<lparr>gpu_index = Some 1, gpu_index_id_map = Some 2\<rparr>,
              CpuIndexObj \<lparr>family = Standard, hnsw_efConstruction = PyInt 200,
                hnsw_efSearch = PyInt 50, index_base_level_only = PyBool False,
                copied_from = None\<rparr>],
       trace = [NewIndex Standard, SetAttr 4 ''hnsw.efConstruction'' (PyInt 200),
                SetAttr 4 ''hnsw.efSearch'' (PyInt 50),
                SetAttr 4 ''base_level_only'' (PyBool False), CopyTo 1 4]\<rparr>)"
  by (simp add: run_defs)

lemma write_run:
  "write_cpu_index quiet_env 0 3 ''/tmp/index.faiss'' (cpu_world default_params Standard) =
     (Inr (), (cpu_world default_params Standard)
        \<lparr>trace := [WriteIndex (Some 2) ''/tmp/index.faiss'', Cleanup 3]\<rparr>)"
  by (simp add: run_defs)

lemma binary_write_run:
  "write_cpu_index quiet_env 0 3 ''/tmp/index.faiss'' (cpu_world binary_params Binary) =
     (Inr (), (cpu_world binary_params Binary)
        \<lparr>trace := [WriteIndexBinary (Some 2) ''/tmp/index.faiss'', Cleanup 3]\<rparr>)"
  by (simp add: run_defs)

lemma unwritable_run:
  "write_cpu_index unwritable_env 0 3 ''/nonexistent/index.faiss''
       (cpu_world default_params Standard) =
     (Inl (Exc Exception
             ''Unexpected error while writing index to file: could not open file for writing''
             (Some (Exc RuntimeError ''could not open file for writing'' None))),
      (cpu_world default_params Standard)
        \<lparr>trace := [WriteIndex (Some 2) ''/nonexistent/index.faiss'']\<rparr>)"
  by (simp add: run_defs)


lemma binary_copy_failure_body:
  "try_body copy_fails_env Binary 0 3 (gpu_world binary_params Binary) =
     (Inl (Exc RuntimeError ''copyTo failed'' None),
      \<lparr>heap = [BuilderObj binary_params, GpuIndexObj Binary, IdMapObj (Some 1),
              GpuOutputObj \<lparr>gpu_index = Some 1, gpu_index_id_map = Some 2\<rparr>,
              CpuIndexObj \<lparr>family = Binary, hnsw_efConstruction = PyInt 100,
                hnsw_efSearch = PyInt 100, index_base_level_only = PyBool True,
                copied_from = None\<rparr>],
       trace = [NewIndex Binary, SetAttr 4 ''hnsw.efConstruction'' (PyInt 100),
                SetAttr 4 ''hnsw.efSearch'' (PyInt 100),
                SetAttr 4 ''base_level_only'' (PyBool True), CopyTo 1 4]\<rparr>)"
  by (simp add: run_defs)

lemma binary_cleanup_failure_run:
  "convert_gpu_to_cpu_index cleanup_fails_env 0 3 (gpu_world binary_params Binary) =
     (Inl (Exc Exception ''Failed to convert GPU index to CPU index: cleanup failed''
             (Some (Exc RuntimeError ''cleanup failed'' None))),
      \<lparr>heap = [BuilderObj binary_params, GpuIndexObj Binary, IdMapObj (Some 4),
              GpuOutputObj \<lparr>gpu_index = Some 1, gpu_index_id_map = None\<rparr>,
              CpuIndexObj \<lparr>family = Binary, hnsw_efConstruction = PyInt 100,
                hnsw_efSearch = PyInt 100, index_base_level_only = PyBool True,
                copied_from = Some 1\<rparr>],
       trace = [NewIndex Binary, SetAttr 4 ''hnsw.efConstruction'' (PyInt 100),
                SetAttr 4 ''hnsw.efSearch'' (PyInt 100),
                SetAttr 4 ''base_level_only'' (PyBool True), CopyTo 1 4,
                SetRef 2 ''index'' None, SetRef 3 ''index_id_map'' None,
                SetRef 2 ''index'' (Some 4), Cleanup 3]\<rparr>)"
  by (simp add: run_defs)

subsection \<open>Writing\<close>


lemma write_cpu_index_run:
  assumes "deref w self = Some (BuilderObj cfg)" and "deref w b = Some (CpuOutputObj bundle)"
  shows "write_cpu_index env self b path w =
    (if vector_dtype cfg \<noteq> PyDataType BINARY
     then (case write_index_raises env (cpu_index_id_map bundle) path of
             Some e \<Rightarrow> (Inl (write_error path e),
                        log (WriteIndex (cpu_index_id_map bundle) path) w)
           | None \<Rightarrow>
              (case cleanup_raises env b of
                 Some e \<Rightarrow> (Inl (write_error path e),
                            log (Cleanup b) (log (WriteIndex (cpu_index_id_map bundle) path) w))
               | None \<Rightarrow> (Inr (),
                            log (Cleanup b) (log (WriteIndex (cpu_index_id_map bundle) path) w))))
     else (case write_index_binary_raises env (cpu_index_id_map bundle) path of
             Some e \<Rightarrow> (Inl (write_error path e),
                        log (WriteIndexBinary (cpu_index_id_map bundle) path) w)
           | None \<Rightarrow>
              (case cleanup_raises env b of
                 Some e \<Rightarrow> (Inl (write_error path e),
                            log (Cleanup b)
                              (log (WriteIndexBinary (cpu_index_id_map bundle) path) w))
               | None \<Rightarrow> (Inr (),
                            log (Cleanup b)
                              (log (WriteIndexBinary (cpu_index_id_map bundle) path) w)))))"
  using assms
  by (simp add: write_cpu_index_def try_except_def and_then_def self_attr_def
      get_cpu_index_id_map_def write_index_def write_index_binary_def cleanup_def ret_def
      raise_def split: option.splits)

subsection \<open>The dispatch and the objects of the concrete runs\<close>

lemma cpu_world_objects:
  "deref (cpu_world cfg fam) 0 = Some (BuilderObj cfg)"
  "deref (cpu_world cfg fam) 3 =
     Some (CpuOutputObj \<lparr>cpu_index = Some 1, cpu_index_id_map = Some 2\<rparr>)"
  by (simp_all add: cpu_world_def deref_def)

lemma gpu_world_objects:
  "deref (gpu_world cfg fam) 0 = Some (BuilderObj cfg)"
  "deref (gpu_world cfg fam) 3 =
     Some (GpuOutputObj \<lparr>gpu_index = Some 1, gpu_index_id_map = Some 2\<rparr>)"
  by (simp_all add: gpu_world_def deref_def)

lemma convert_dispatch:
  assumes "deref w self = Some (BuilderObj cfg)"
  shows "convert_gpu_to_cpu_index env self b w =
     try_except
       (try_body env (if vector_dtype cfg \<noteq> PyDataType BINARY then Standard else Binary) self b)
       (\<lambda>e. raise (convert_error e)) w"
  using assms
  by (simp add: convert_gpu_to_cpu_index_def and_then_def self_attr_def ret_def
      do_convert_gpu_to_cpu_index_def do_convert_gpu_to_cpu_binary_index_def
      IndexHNSWCagra_def IndexBinaryHNSWCagra_def)

lemma convert_failure_keeps_stable:
  assumes "fst (convert_gpu_to_cpu_index env self b w) = Inl e"
  shows "same_stable w (snd (convert_gpu_to_cpu_index env self b w))"
  using raising_preserves_convert [of w env self b] assms same_stable_refl [of w]
  by (simp add: raising_preserves_def)

subsection \<open>The worlds between the writes of the relocation\<close>

lemma relocate_steps:
  assumes "and_then (get_gpu_index_id_map b) (\<lambda>m.
        and_then (set_index m None) (\<lambda>_.
        and_then (get_gpu_index_id_map b) (\<lambda>index_id_map.
        and_then (set_gpu_index_id_map b None) (\<lambda>_.
        and_then (set_index index_id_map (Some c)) (\<lambda>_. k index_id_map))))) w = (Inr out, w')"
  obtains gi m old wa wb w1 where
    "deref w b = Some (GpuOutputObj \<lparr>gpu_index = gi, gpu_index_id_map = Some m\<rparr>)"
    and "deref w m = Some (IdMapObj old)"
    and "set_index (Some m) None w = (Inr (), wa)"
    and "deref wa = (deref w)(m \<mapsto> IdMapObj None)"
    and "set_gpu_index_id_map b None wa = (Inr (), wb)"
    and "deref wb = (deref w)(m \<mapsto> IdMapObj None,
           b \<mapsto> GpuOutputObj \<lparr>gpu_index = gi, gpu_index_id_map = None\<rparr>)"
    and "set_index (Some m) (Some c) wb = (Inr (), w1)"
    and "deref w1 = (deref w)(b \<mapsto> GpuOutputObj \<lparr>gpu_index = gi, gpu_index_id_map = None\<rparr>,
           m \<mapsto> IdMapObj (Some c))"
    and "k (Some m) w1 = (Inr out, w')"
proof -
  from assms obtain mo w0 where a1: "get_gpu_index_id_map b w = (Inr mo, w0)"
    and r1: "and_then (set_index mo None) (\<lambda>_.
        and_then (get_gpu_index_id_map b) (\<lambda>index_id_map.
        and_then (set_gpu_index_id_map b None) (\<lambda>_.
        and_then (set_index index_id_map (Some c)) (\<lambda>_. k index_id_map)))) w0 = (Inr out, w')"
    by (rule and_then_InrE)
  from a1 obtain gi where b0: "deref w b = Some (GpuOutputObj \<lparr>gpu_index = gi, gpu_index_id_map = mo\<rparr>)"
    and w0: "w0 = w" by (rule get_gpu_index_id_map_InrE)
  from r1 obtain u wa where a2: "set_index mo None w0 = (Inr u, wa)"
    and r2: "and_then (get_gpu_index_id_map b) (\<lambda>index_id_map.
        and_then (set_gpu_index_id_map b None) (\<lambda>_.
        and_then (set_index index_id_map (Some c)) (\<lambda>_. k index_id_map))) wa = (Inr out, w')"
    by (rule and_then_InrE)
  from a2 w0 obtain m old where mo: "mo = Some m" and m0: "deref w m = Some (IdMapObj old)"
    and da: "deref wa = (deref w)(m \<mapsto> IdMapObj None)"
    by (auto elim: set_index_InrE)
  from b0 m0 have bm: "b \<noteq> m" by auto
  from r2 obtain mo' wa' where a3: "get_gpu_index_id_map b wa = (Inr mo', wa')"
    and r3: "and_then (set_gpu_index_id_map b None) (\<lambda>_.
        and_then (set_index mo' (Some c)) (\<lambda>_. k mo')) wa' = (Inr out, w')"
    by (rule and_then_InrE)
  from a3 obtain gi' where "deref wa b = Some (GpuOutputObj \<lparr>gpu_index = gi', gpu_index_id_map = mo'\<rparr>)"
    and wa': "wa' = wa" by (rule get_gpu_index_id_map_InrE)
  with da b0 bm have mo': "mo' = mo" by simp
  from r3 wa' obtain u' wb where a4: "set_gpu_index_id_map b None wa = (Inr u', wb)"
    and r4: "and_then (set_index mo' (Some c)) (\<lambda>_. k mo') wb = (Inr out, w')"
    by (auto elim: and_then_InrE)
  from a4 da b0 bm have db: "deref wb = (deref w)(m \<mapsto> IdMapObj None,
           b \<mapsto> GpuOutputObj \<lparr>gpu_index = gi, gpu_index_id_map = None\<rparr>)"
    by (auto elim!: set_gpu_index_id_map_InrE)
  from r4 obtain u'' w1 where a5: "set_index mo' (Some c) wb = (Inr u'', w1)"
    and r5: "k mo' w1 = (Inr out, w')"
    by (rule and_then_InrE)
  from a5 mo' mo db bm have d1: "deref w1 =
       (deref w)(b \<mapsto> GpuOutputObj \<lparr>gpu_index = gi, gpu_index_id_map = None\<rparr>,
           m \<mapsto> IdMapObj (Some c))"
    by (auto elim!: set_index_InrE simp: fun_eq_iff)
  show ?thesis
    using b0 m0 a2 da a4 db a5 d1 r5 mo mo' w0 by (intro that [of gi m old wa wb w1]) simp_all
qed


subsection \<open>The three parts of the conversion\<close>

lemma and_then_assoc:
  "and_then (and_then m f) g = and_then m (\<lambda>x. and_then (f x) g)"
  by (rule ext) (simp add: and_then_def split: prod.splits sum.splits)

lemma and_then_ret: "and_then (ret x) f = f x"
  by (rule ext) (simp add: and_then_def ret_def)

lemma try_body_split:
  "try_body env fam self b =
     and_then (configure_and_copy env fam self b) (\<lambda>c.
     and_then (relocate b c) (\<lambda>m. cleanup_and_return env b c m))"
  by (simp add: and_then_assoc and_then_ret)

lemma and_then_cases:
  assumes "and_then m f w = (r, w')"
  obtains (raised) e where "m w = (Inl e, w')" and "r = Inl e"
    | (returned) x w1 where "m w = (Inr x, w1)" and "f x w1 = (r, w')"
  using assms by (auto simp: and_then_def split: prod.splits sum.splits)

lemma try_except_cases:
  assumes "try_except m (\<lambda>e. raise (h e)) w = (r, w')"
  obtains (raised) e where "m w = (Inl e, w')" and "r = Inl (h e)"
    | (returned) x where "m w = (Inr x, w')" and "r = Inr x"
  using assms by (auto simp: try_except_def raise_def split: prod.splits sum.splits)

subsection \<open>Runs that raise before the relocation\<close>

lemma no_ref_write_refl: "no_ref_write w w"
  by (simp add: no_ref_write_def)

lemma no_ref_write_log:
  assumes "no_ref_write w w1" and "\<forall>x a v. ev \<noteq> SetRef x a v" and "\<forall>x. ev \<noteq> Cleanup x"
  shows "no_ref_write w (log ev w1)"
proof -
  from assms(1) obtain evs where e: "trace w1 = trace w @ evs"
    "\<forall>x a v. SetRef x a v \<notin> set evs" "\<forall>x. Cleanup x \<notin> set evs"
    and d: "\<forall>r obj. deref w r = Some obj \<longrightarrow> (\<forall>idx. obj \<noteq> CpuIndexObj idx) \<longrightarrow>
           deref w1 r = Some obj"
    unfolding no_ref_write_def by blast
  from e assms(2,3) have "trace (log ev w1) = trace w @ (evs @ [ev])
      \<and> (\<forall>x a v. SetRef x a v \<notin> set (evs @ [ev])) \<and> (\<forall>x. Cleanup x \<notin> set (evs @ [ev]))"
    by auto
  with d show ?thesis unfolding no_ref_write_def by (simp only: deref_log) blast
qed

lemma no_ref_write_store:
  assumes "no_ref_write w w1" and "deref w1 r = Some (CpuIndexObj idx)"
  shows "no_ref_write w (store r (CpuIndexObj idx') w1)"
proof -
  from assms(2) have d: "deref (store r (CpuIndexObj idx') w1) = (deref w1)(r \<mapsto> CpuIndexObj idx')"
    by (rule deref_store)
  from assms show ?thesis
    unfolding no_ref_write_def d by (auto simp: trace_store)
qed

lemma no_ref_write_alloc:
  assumes "no_ref_write w w1"
  shows "no_ref_write w (snd (alloc obj w1))"
proof -
  obtain res w2 where a: "alloc obj w1 = (res, w2)" by (cases "alloc obj w1")
  have fresh: "deref w1 (length (heap w1)) = None" by (rule deref_fresh)
  from assms fresh show ?thesis
    unfolding no_ref_write_def a snd_conv alloc_effect(2) [OF a] alloc_effect(4) [OF a]
    by auto
qed

lemma preserves_no_ref_write_new_cpu_index: "preserves (no_ref_write w) (new_cpu_index env fam)"
  by (auto simp: preserves_def new_cpu_index_def raise_def
      intro!: no_ref_write_alloc no_ref_write_log split: option.splits)

lemma preserves_no_ref_write_set_index_attr:
  "preserves (no_ref_write w) (set_index_attr env r name upd v)"
  by (auto simp: preserves_def set_index_attr_def raise_def ret_def
      intro!: no_ref_write_store no_ref_write_log split: option.splits py_obj.splits)

lemma preserves_no_ref_write_copyTo: "preserves (no_ref_write w) (copyTo env src dst)"
  by (auto simp: preserves_def copyTo_def raise_def ret_def
      intro!: no_ref_write_store no_ref_write_log split: option.splits py_obj.splits)

lemma preserves_no_ref_write_configure_and_copy:
  "preserves (no_ref_write w) (configure_and_copy env fam self b)"
  unfolding set_hnsw_efConstruction_def set_hnsw_efSearch_def set_base_level_only_def
  by (intro preserves_and_then preserves_ret preserves_self_attr preserves_get_gpu_index
      preserves_no_ref_write_new_cpu_index preserves_no_ref_write_set_index_attr
      preserves_no_ref_write_copyTo)

lemma ret_InrE:
  assumes "ret x w = (Inr y, w')"
  obtains "y = x" and "w' = w"
  using assms by (simp add: ret_def)

lemma configure_and_copy_InrE:
  assumes "configure_and_copy env fam self b w = (Inr c, w0)"
  obtains cfg g mi fam0 where
    "deref w self = Some (BuilderObj cfg)"
    and "new_index_raises env fam = None"
    and "setattr_raises env ''hnsw.efConstruction'' (ef_construction cfg) = None"
    and "setattr_raises env ''hnsw.efSearch'' (ef_search cfg) = None"
    and "setattr_raises env ''base_level_only'' (base_level_only cfg) = None"
    and "deref w b = Some (GpuOutputObj \<lparr>gpu_index = Some g, gpu_index_id_map = mi\<rparr>)"
    and "deref w g = Some (GpuIndexObj fam0)"
    and "copyTo_raises env g (length (heap w)) = None"
    and "c = length (heap w)"
    and "deref w0 = (deref w)(length (heap w) \<mapsto> CpuIndexObj \<lparr>family = fam,
            hnsw_efConstruction = ef_construction cfg, hnsw_efSearch = ef_search cfg,
            index_base_level_only = base_level_only cfg, copied_from = Some g\<rparr>)"
    and "length (heap w0) = Suc (length (heap w))"
    and "trace w0 = trace w @
         [NewIndex fam,
          SetAttr (length (heap w)) ''hnsw.efConstruction'' (ef_construction cfg),
          SetAttr (length (heap w)) ''hnsw.efSearch'' (ef_search cfg),
          SetAttr (length (heap w)) ''base_level_only'' (base_level_only cfg),
          CopyTo g (length (heap w))]"
proof -
  let ?c = "length (heap w)"
  from assms obtain cfg w1 where
    cfg: "deref w self = Some (BuilderObj cfg)"
    and e1: "new_index_raises env fam = None"
      "setattr_raises env ''hnsw.efConstruction'' (ef_construction cfg) = None"
      "setattr_raises env ''hnsw.efSearch'' (ef_search cfg) = None"
      "setattr_raises env ''base_level_only'' (base_level_only cfg) = None"
    and d1: "deref w1 = (deref w)(?c \<mapsto> CpuIndexObj \<lparr>family = fam,
            hnsw_efConstruction = ef_construction cfg, hnsw_efSearch = ef_search cfg,
            index_base_level_only = base_level_only cfg, copied_from = None\<rparr>)"
    and l1: "length (heap w1) = Suc ?c"
    and t1: "trace w1 = trace w @
         [NewIndex fam,
          SetAttr ?c ''hnsw.efConstruction'' (ef_construction cfg),
          SetAttr ?c ''hnsw.efSearch'' (ef_search cfg),
          SetAttr ?c ''base_level_only'' (base_level_only cfg)]"
    and r1: "and_then (get_gpu_index b) (\<lambda>g. and_then (copyTo env g ?c) (\<lambda>_. ret ?c)) w1 =
       (Inr c, w0)"
    by (rule configure_InrE)
  from r1 obtain g mi fam0 idx w2 where
    b1: "deref w1 b = Some (GpuOutputObj \<lparr>gpu_index = Some g, gpu_index_id_map = mi\<rparr>)"
    and g1: "deref w1 g = Some (GpuIndexObj fam0)"
    and c1: "deref w1 ?c = Some (CpuIndexObj idx)"
    and e2: "copyTo_raises env g ?c = None"
    and d2: "deref w2 = (deref w1)(?c \<mapsto> CpuIndexObj (idx\<lparr>copied_from := Some g\<rparr>))"
    and l2: "length (heap w2) = length (heap w1)"
    and t2: "trace w2 = trace w1 @ [CopyTo g ?c]"
    and r2: "ret ?c w2 = (Inr c, w0)"
    by (rule copy_InrE)
  from r2 have c: "c = ?c" and w0: "w0 = w2" by (simp_all add: ret_def)
  from b1 d1 have bc: "b \<noteq> ?c" by (auto split: if_splits)
  from g1 d1 have gc: "g \<noteq> ?c" by (auto split: if_splits)
  from c1 d1 have idx: "idx = \<lparr>family = fam,
            hnsw_efConstruction = ef_construction cfg, hnsw_efSearch = ef_search cfg,
            index_base_level_only = base_level_only cfg, copied_from = None\<rparr>" by simp
  show ?thesis
  proof (rule that [OF cfg e1 _ _ e2 c])
    show "deref w b = Some (GpuOutputObj \<lparr>gpu_index = Some g, gpu_index_id_map = mi\<rparr>)"
      using b1 d1 bc by simp
    show "deref w g = Some (GpuIndexObj fam0)" using g1 d1 gc by simp
    show "deref w0 = (deref w)(?c \<mapsto> CpuIndexObj \<lparr>family = fam,
            hnsw_efConstruction = ef_construction cfg, hnsw_efSearch = ef_search cfg,
            index_base_level_only = base_level_only cfg, copied_from = Some g\<rparr>)"
      unfolding w0 d2 d1 idx by simp
    show "length (heap w0) = Suc ?c" using w0 l2 l1 by simp
    show "trace w0 = trace w @
         [NewIndex fam,
          SetAttr ?c ''hnsw.efConstruction'' (ef_construction cfg),
          SetAttr ?c ''hnsw.efSearch'' (ef_search cfg),
          SetAttr ?c ''base_level_only'' (base_level_only cfg),
          CopyTo g ?c]"
      using w0 t2 t1 by simp
  qed
qed

lemma relocate_InlE:
  assumes "relocate b c w0 = (Inl e, w')"
  shows "w' = w0"
proof -
  from assms show ?thesis
  proof (cases rule: and_then_cases)
    case (raised e')
    then show ?thesis
      by (auto simp: get_gpu_index_id_map_def raise_def ret_def split: option.splits py_obj.splits)
  next
    case (returned mo w1)
    from returned(1) obtain gi where b0: "deref w0 b =
        Some (GpuOutputObj \<lparr>gpu_index = gi, gpu_index_id_map = mo\<rparr>)" and w1: "w1 = w0"
      by (rule get_gpu_index_id_map_InrE)
    from returned(2) show ?thesis
    proof (cases rule: and_then_cases)
      case (raised e')
      then show ?thesis
        using w1 by (auto simp: set_index_def raise_def ret_def split: option.splits py_obj.splits)
    next
      case (returned u wa)
      from returned(1) w1 obtain m old where mo: "mo = Some m"
        and m0: "deref w0 m = Some (IdMapObj old)"
        and da: "deref wa = (deref w0)(m \<mapsto> IdMapObj None)"
        by (auto elim: set_index_InrE)
      from b0 m0 have bm: "b \<noteq> m" by auto
      from da b0 bm mo have ba: "deref wa b =
        Some (GpuOutputObj \<lparr>gpu_index = gi, gpu_index_id_map = Some m\<rparr>)" by simp
      from da have ma: "deref wa m = Some (IdMapObj None)" by simp
      have "fst (and_then (get_gpu_index_id_map b) (\<lambda>index_id_map.
        and_then (set_gpu_index_id_map b None) (\<lambda>_.
        and_then (set_index index_id_map (Some c)) (\<lambda>_.
        ret index_id_map))) wa) = Inr (Some m)"
        using ba ma bm
        by (simp add: and_then_def get_gpu_index_id_map_def set_gpu_index_id_map_def
            set_index_def ret_def deref_store)
      with returned(2) show ?thesis by simp
    qed
  qed
qed

lemma relocate_returns:
  assumes "relocate b c w0 = (Inr mo, w3)"
  obtains gi m old wa wb where
    "mo = Some m"
    and "deref w0 b = Some (GpuOutputObj \<lparr>gpu_index = gi, gpu_index_id_map = Some m\<rparr>)"
    and "deref w0 m = Some (IdMapObj old)"
    and "set_index (Some m) None w0 = (Inr (), wa)"
    and "deref wa = (deref w0)(m \<mapsto> IdMapObj None)"
    and "set_gpu_index_id_map b None wa = (Inr (), wb)"
    and "deref wb = (deref w0)(m \<mapsto> IdMapObj None,
           b \<mapsto> GpuOutputObj \<lparr>gpu_index = gi, gpu_index_id_map = None\<rparr>)"
    and "set_index (Some m) (Some c) wb = (Inr (), w3)"
    and "deref w3 = (deref w0)(b \<mapsto> GpuOutputObj \<lparr>gpu_index = gi, gpu_index_id_map = None\<rparr>,
           m \<mapsto> IdMapObj (Some c))"
    and "length (heap w3) = length (heap w0)"
    and "trace w3 = trace w0 @
           [SetRef m ''index'' None, SetRef b ''index_id_map'' None, SetRef m ''index'' (Some c)]"
proof -
  from assms obtain gi m old wa wb w1 where
    f: "deref w0 b = Some (GpuOutputObj \<lparr>gpu_index = gi, gpu_index_id_map = Some m\<rparr>)"
    "deref w0 m = Some (IdMapObj old)"
    "set_index (Some m) None w0 = (Inr (), wa)"
    "deref wa = (deref w0)(m \<mapsto> IdMapObj None)"
    "set_gpu_index_id_map b None wa = (Inr (), wb)"
    "deref wb = (deref w0)(m \<mapsto> IdMapObj None,
           b \<mapsto> GpuOutputObj \<lparr>gpu_index = gi, gpu_index_id_map = None\<rparr>)"
    "set_index (Some m) (Some c) wb = (Inr (), w1)"
    "deref w1 = (deref w0)(b \<mapsto> GpuOutputObj \<lparr>gpu_index = gi, gpu_index_id_map = None\<rparr>,
           m \<mapsto> IdMapObj (Some c))"
    and r: "ret (Some m) w1 = (Inr mo, w3)"
    by (rule relocate_steps)
  from r have mo: "mo = Some m" and w1: "w1 = w3" by (simp_all add: ret_def)
  from f(3) have ta: "trace wa = trace w0 @ [SetRef m ''index'' None]"
    and la: "length (heap wa) = length (heap w0)" by (auto elim: set_index_InrE)
  from f(5) have tb: "trace wb = trace wa @ [SetRef b ''index_id_map'' None]"
    and lb: "length (heap wb) = length (heap wa)" by (auto elim: set_gpu_index_id_map_InrE)
  from f(7) have t3: "trace w1 = trace wb @ [SetRef m ''index'' (Some c)]"
    and l3: "length (heap w1) = length (heap wb)" by (auto elim: set_index_InrE)
  show ?thesis
    using f ta tb t3 la lb l3 unfolding w1 by (intro that [OF mo]) simp_all
qed

lemma cleanup_and_return_run:
  assumes "deref w3 b = Some (GpuOutputObj out)"
  shows "cleanup_and_return env b c m w3 =
     (case cleanup_raises env b of
        Some e \<Rightarrow> (Inl e, log (Cleanup b) w3)
      | None \<Rightarrow> alloc (CpuOutputObj \<lparr>cpu_index = Some c, cpu_index_id_map = m\<rparr>)
                  (log (Cleanup b) w3))"
  using assms
  by (simp add: and_then_def cleanup_def new_FaissCpuBuildIndexOutput_def raise_def ret_def
      split: option.splits)

subsection \<open>Every run of the conversion\<close>

lemma self_attr_InlE:
  assumes "self_attr self field w = (Inl e, w')"
  shows "w' = w"
  using assms by (auto simp: self_attr_def ret_def raise_def split: option.splits py_obj.splits)

lemma try_except_worlds:
  "snd (try_except m (\<lambda>e. raise (h e)) w) = snd (m w)"
  "fst (try_except m (\<lambda>e. raise (h e)) w) =
     (case fst (m w) of Inl e \<Rightarrow> Inl (h e) | Inr x \<Rightarrow> Inr x)"
  by (simp_all add: try_except_def raise_def split: prod.splits sum.splits)

lemma try_body_outcome:
  assumes "try_body env fam self b w = (r0, w')"
  shows "(isl r0 \<and> no_ref_write w w')
     \<or> (\<exists>cfg c g m old w0 wa wb w3.
          deref w self = Some (BuilderObj cfg)
        \<and> deref w b = Some (GpuOutputObj \<lparr>gpu_index = Some g, gpu_index_id_map = Some m\<rparr>)
        \<and> deref w m = Some (IdMapObj old)
        \<and> c = length (heap w) \<and> c \<noteq> g
        \<and> configure_and_copy env fam self b w = (Inr c, w0)
        \<and> trace w0 = trace w @
             [NewIndex fam,
              SetAttr c ''hnsw.efConstruction'' (ef_construction cfg),
              SetAttr c ''hnsw.efSearch'' (ef_search cfg),
              SetAttr c ''base_level_only'' (base_level_only cfg),
              CopyTo g c]
        \<and> deref w0 m = Some (IdMapObj old)
        \<and> deref w0 b = Some (GpuOutputObj \<lparr>gpu_index = Some g, gpu_index_id_map = Some m\<rparr>)
        \<and> set_index (Some m) None w0 = (Inr (), wa)
        \<and> deref wa m = Some (IdMapObj None)
        \<and> deref wa b = Some (GpuOutputObj \<lparr>gpu_index = Some g, gpu_index_id_map = Some m\<rparr>)
        \<and> set_gpu_index_id_map b None wa = (Inr (), wb)
        \<and> deref wb m = Some (IdMapObj None)
        \<and> deref wb b = Some (GpuOutputObj \<lparr>gpu_index = Some g, gpu_index_id_map = None\<rparr>)
        \<and> set_index (Some m) (Some c) wb = (Inr (), w3)
        \<and> deref w3 m = Some (IdMapObj (Some c))
        \<and> deref w3 b = Some (GpuOutputObj \<lparr>gpu_index = Some g, gpu_index_id_map = None\<rparr>)
        \<and> cleanup_and_return env b c (Some m) w3 = (r0, w')
        \<and> trace w' = trace w @
             [NewIndex fam,
              SetAttr c ''hnsw.efConstruction'' (ef_construction cfg),
              SetAttr c ''hnsw.efSearch'' (ef_search cfg),
              SetAttr c ''base_level_only'' (base_level_only cfg),
              CopyTo g c,
              SetRef m ''index'' None,
              SetRef b ''index_id_map'' None,
              SetRef m ''index'' (Some c),
              Cleanup b]
        \<and> deref w' m = Some (IdMapObj (Some c))
        \<and> deref w' b = Some (GpuOutputObj \<lparr>gpu_index = Some g, gpu_index_id_map = None\<rparr>)
        \<and> ((cleanup_raises env b = None \<and> r0 = Inr (Suc c))
             \<or> (\<exists>e0. cleanup_raises env b = Some e0 \<and> r0 = Inl e0)))"
proof -
  from assms have "and_then (configure_and_copy env fam self b) (\<lambda>c.
     and_then (relocate b c) (\<lambda>m. cleanup_and_return env b c m)) w = (r0, w')"
    by (simp only: try_body_split)
  then show ?thesis
  proof (cases rule: and_then_cases)
    case (raised e)
    from preserves_no_ref_write_configure_and_copy [of w env fam self b] no_ref_write_refl [of w]
    have "no_ref_write w (snd (configure_and_copy env fam self b w))"
      by (simp add: preserves_def)
    with raised show ?thesis by simp
  next
    case (returned c w0)
    from preserves_no_ref_write_configure_and_copy [of w env fam self b] no_ref_write_refl [of w]
    have "no_ref_write w (snd (configure_and_copy env fam self b w))"
      by (simp add: preserves_def)
    with returned(1) have q: "no_ref_write w w0" by simp
    from returned(2) show ?thesis
    proof (cases rule: and_then_cases)
      case (raised e)
      from raised(1) have "w' = w0" by (rule relocate_InlE)
      with q raised(2) show ?thesis by simp
    next
      case (returned mo w3)
      note fin = returned(2)
      from \<open>configure_and_copy env fam self b w = (Inr c, w0)\<close>
      obtain cfg g mi fam0 where
        cfg: "deref w self = Some (BuilderObj cfg)"
        and b0: "deref w b = Some (GpuOutputObj \<lparr>gpu_index = Some g, gpu_index_id_map = mi\<rparr>)"
        and g0: "deref w g = Some (GpuIndexObj fam0)"
        and c: "c = length (heap w)"
        and d0: "deref w0 = (deref w)(length (heap w) \<mapsto> CpuIndexObj \<lparr>family = fam,
            hnsw_efConstruction = ef_construction cfg, hnsw_efSearch = ef_search cfg,
            index_base_level_only = base_level_only cfg, copied_from = Some g\<rparr>)"
        and l0: "length (heap w0) = Suc (length (heap w))"
        and t0: "trace w0 = trace w @
         [NewIndex fam,
          SetAttr (length (heap w)) ''hnsw.efConstruction'' (ef_construction cfg),
          SetAttr (length (heap w)) ''hnsw.efSearch'' (ef_search cfg),
          SetAttr (length (heap w)) ''base_level_only'' (base_level_only cfg),
          CopyTo g (length (heap w))]"
        by (rule configure_and_copy_InrE) blast
      from returned(1) obtain gi m old wa wb where
        mo: "mo = Some m"
        and b1: "deref w0 b = Some (GpuOutputObj \<lparr>gpu_index = gi, gpu_index_id_map = Some m\<rparr>)"
        and m1: "deref w0 m = Some (IdMapObj old)"
        and sa: "set_index (Some m) None w0 = (Inr (), wa)"
        and da: "deref wa = (deref w0)(m \<mapsto> IdMapObj None)"
        and sb: "set_gpu_index_id_map b None wa = (Inr (), wb)"
        and db: "deref wb = (deref w0)(m \<mapsto> IdMapObj None,
           b \<mapsto> GpuOutputObj \<lparr>gpu_index = gi, gpu_index_id_map = None\<rparr>)"
        and s3: "set_index (Some m) (Some c) wb = (Inr (), w3)"
        and d3: "deref w3 = (deref w0)(b \<mapsto> GpuOutputObj \<lparr>gpu_index = gi, gpu_index_id_map = None\<rparr>,
           m \<mapsto> IdMapObj (Some c))"
        and l3: "length (heap w3) = length (heap w0)"
        and t3: "trace w3 = trace w0 @
           [SetRef m ''index'' None, SetRef b ''index_id_map'' None, SetRef m ''index'' (Some c)]"
        by (rule relocate_returns)
      from b0 g0 have lt: "b < length (heap w)" "g < length (heap w)"
        by (auto dest: deref_bound)
      from m1 d0 have mc: "m \<noteq> length (heap w)" by (auto split: if_splits)
      with m1 d0 have m0: "deref w m = Some (IdMapObj old)" by simp
      then have ltm: "m < length (heap w)" by (auto dest: deref_bound)
      from b0 m0 have bm: "b \<noteq> m" by auto
      from b1 d0 b0 lt have gi: "gi = Some g" and mi: "mi = Some m" by simp_all
      from d3 bm have b3: "deref w3 b =
          Some (GpuOutputObj \<lparr>gpu_index = Some g, gpu_index_id_map = None\<rparr>)"
        and m3: "deref w3 m = Some (IdMapObj (Some c))"
        by (simp_all add: gi)
      note run = cleanup_and_return_run [OF b3, of env c "Some m"]
      from fin mo have fin': "cleanup_and_return env b c (Some m) w3 = (r0, w')" by simp
      have tr: "trace w' = trace w3 @ [Cleanup b]"
        and dm: "deref w' m = Some (IdMapObj (Some c))"
        and db': "deref w' b =
          Some (GpuOutputObj \<lparr>gpu_index = Some g, gpu_index_id_map = None\<rparr>)"
        and res: "(cleanup_raises env b = None \<and> r0 = Inr (Suc c))
             \<or> (\<exists>e0. cleanup_raises env b = Some e0 \<and> r0 = Inl e0)"
      proof -
        show "trace w' = trace w3 @ [Cleanup b]"
          using fin' unfolding run by (auto simp: alloc_def split: option.splits)
        have "\<forall>x < length (heap w3). deref w' x = deref w3 x"
          using fin' unfolding run
          by (auto simp: alloc_def deref_def nth_append split: option.splits)
        with l3 l0 lt ltm b3 m3 show "deref w' m = Some (IdMapObj (Some c))"
          and "deref w' b = Some (GpuOutputObj \<lparr>gpu_index = Some g, gpu_index_id_map = None\<rparr>)"
          by simp_all
        show "(cleanup_raises env b = None \<and> r0 = Inr (Suc c))
             \<or> (\<exists>e0. cleanup_raises env b = Some e0 \<and> r0 = Inl e0)"
          using fin' l3 l0 c unfolding run by (auto simp: alloc_def split: option.splits)
      qed
      have cg: "c \<noteq> g" using c lt by simp
      have "deref w self = Some (BuilderObj cfg)
        \<and> deref w b = Some (GpuOutputObj \<lparr>gpu_index = Some g, gpu_index_id_map = Some m\<rparr>)
        \<and> deref w m = Some (IdMapObj old)
        \<and> c = length (heap w) \<and> c \<noteq> g
        \<and> configure_and_copy env fam self b w = (Inr c, w0)
        \<and> trace w0 = trace w @
             [NewIndex fam,
              SetAttr c ''hnsw.efConstruction'' (ef_construction cfg),
              SetAttr c ''hnsw.efSearch'' (ef_search cfg),
              SetAttr c ''base_level_only'' (base_level_only cfg),
              CopyTo g c]
        \<and> deref w0 m = Some (IdMapObj old)
        \<and> deref w0 b = Some (GpuOutputObj \<lparr>gpu_index = Some g, gpu_index_id_map = Some m\<rparr>)
        \<and> set_index (Some m) None w0 = (Inr (), wa)
        \<and> deref wa m = Some (IdMapObj None)
        \<and> deref wa b = Some (GpuOutputObj \<lparr>gpu_index = Some g, gpu_index_id_map = Some m\<rparr>)
        \<and> set_gpu_index_id_map b None wa = (Inr (), wb)
        \<and> deref wb m = Some (IdMapObj None)
        \<and> deref wb b = Some (GpuOutputObj \<lparr>gpu_index = Some g, gpu_index_id_map = None\<rparr>)
        \<and> set_index (Some m) (Some c) wb = (Inr (), w3)
        \<and> deref w3 m = Some (IdMapObj (Some c))
        \<and> deref w3 b = Some (GpuOutputObj \<lparr>gpu_index = Some g, gpu_index_id_map = None\<rparr>)
        \<and> cleanup_and_return env b c (Some m) w3 = (r0, w')
        \<and> trace w' = trace w @
             [NewIndex fam,
              SetAttr c ''hnsw.efConstruction'' (ef_construction cfg),
              SetAttr c ''hnsw.efSearch'' (ef_search cfg),
              SetAttr c ''base_level_only'' (base_level_only cfg),
              CopyTo g c,
              SetRef m ''index'' None,
              SetRef b ''index_id_map'' None,
              SetRef m ''index'' (Some c),
              Cleanup b]
        \<and> deref w' m = Some (IdMapObj (Some c))
        \<and> deref w' b = Some (GpuOutputObj \<lparr>gpu_index = Some g, gpu_index_id_map = None\<rparr>)
        \<and> ((cleanup_raises env b = None \<and> r0 = Inr (Suc c))
             \<or> (\<exists>e0. cleanup_raises env b = Some e0 \<and> r0 = Inl e0))"
        using cfg b0 m0 c cg \<open>configure_and_copy env fam self b w = (Inr c, w0)\<close>
          t0 m1 b1 sa sb s3 b3 m3 fin' tr t3 dm db' res bm
        by (simp add: da db gi mi)
      then show ?thesis by blast
    qed
  qed
qed

lemma convert_without_builder:
  assumes "\<forall>cfg. deref w self \<noteq> Some (BuilderObj cfg)"
  shows "convert_gpu_to_cpu_index env self b w = (Inl (no_attribute ''of the builder''), w)"
  using assms
  by (auto simp: convert_gpu_to_cpu_index_def and_then_def self_attr_def raise_def
      split: option.splits py_obj.splits)

subsection \<open>The result of the conversion, step by step\<close>

lemmas forward_defs = and_then_def new_cpu_index_def alloc_def log_def raise_def ret_def
  self_attr_def deref_def store_def set_hnsw_efConstruction_def set_hnsw_efSearch_def
  set_base_level_only_def set_index_attr_def get_gpu_index_def copyTo_def
  get_gpu_index_id_map_def set_index_def set_gpu_index_id_map_def cleanup_def
  new_FaissCpuBuildIndexOutput_def nth_append nth_list_update

lemma try_body_fst:
  assumes "deref w self = Some (BuilderObj cfg)"
    and "deref w b = Some (GpuOutputObj \<lparr>gpu_index = Some g, gpu_index_id_map = Some m\<rparr>)"
    and "deref w g = Some (GpuIndexObj fam0)"
    and "deref w m = Some (IdMapObj old)"
  shows "fst (try_body env fam self b w) =
    (case new_index_raises env fam of Some e \<Rightarrow> Inl e | None \<Rightarrow>
     case setattr_raises env ''hnsw.efConstruction'' (ef_construction cfg) of Some e \<Rightarrow> Inl e | None \<Rightarrow>
     case setattr_raises env ''hnsw.efSearch'' (ef_search cfg) of Some e \<Rightarrow> Inl e | None \<Rightarrow>
     case setattr_raises env ''base_level_only'' (base_level_only cfg) of Some e \<Rightarrow> Inl e | None \<Rightarrow>
     case copyTo_raises env g (length (heap w)) of Some e \<Rightarrow> Inl e | None \<Rightarrow>
     case cleanup_raises env b of Some e \<Rightarrow> Inl e | None \<Rightarrow> Inr (Suc (length (heap w))))"
proof -
  from assms have lt: "self < length (heap w)" "b < length (heap w)" "g < length (heap w)"
    "m < length (heap w)"
    and nth: "heap w ! self = BuilderObj cfg"
      "heap w ! b = GpuOutputObj \<lparr>gpu_index = Some g, gpu_index_id_map = Some m\<rparr>"
      "heap w ! g = GpuIndexObj fam0" "heap w ! m = IdMapObj old"
    by (auto simp: deref_def split: if_splits)
  from nth have ne: "b \<noteq> m" by auto
  show ?thesis
    using lt nth ne by (simp add: forward_defs split: option.splits)
qed

lemma try_body_fst_no_id_map:
  assumes "deref w self = Some (BuilderObj cfg)"
    and "deref w b = Some (GpuOutputObj \<lparr>gpu_index = Some g, gpu_index_id_map = None\<rparr>)"
    and "deref w g = Some (GpuIndexObj fam0)"
    and "new_index_raises env fam = None"
    and "setattr_raises env ''hnsw.efConstruction'' (ef_construction cfg) = None"
    and "setattr_raises env ''hnsw.efSearch'' (ef_search cfg) = None"
    and "setattr_raises env ''base_level_only'' (base_level_only cfg) = None"
    and "copyTo_raises env g (length (heap w)) = None"
  shows "fst (try_body env fam self b w) = Inl (no_attribute ''index'')"
proof -
  from assms(1-3) have lt: "self < length (heap w)" "b < length (heap w)" "g < length (heap w)"
    and nth: "heap w ! self = BuilderObj cfg"
      "heap w ! b = GpuOutputObj \<lparr>gpu_index = Some g, gpu_index_id_map = None\<rparr>"
      "heap w ! g = GpuIndexObj fam0"
    by (auto simp: deref_def split: if_splits)
  show ?thesis
    using lt nth assms(4-8) by (simp add: forward_defs)
qed

lemma try_body_trace:
  assumes "deref w self = Some (BuilderObj cfg)"
    and "deref w b = Some (GpuOutputObj \<lparr>gpu_index = Some g, gpu_index_id_map = Some m\<rparr>)"
    and "deref w g = Some (GpuIndexObj fam0)"
    and "deref w m = Some (IdMapObj old)"
    and "new_index_raises env fam = None"
    and "setattr_raises env ''hnsw.efConstruction'' (ef_construction cfg) = None"
    and "setattr_raises env ''hnsw.efSearch'' (ef_search cfg) = None"
    and "setattr_raises env ''base_level_only'' (base_level_only cfg) = None"
    and "copyTo_raises env g (length (heap w)) = None"
  shows "trace (snd (try_body env fam self b w)) = trace w @
         [NewIndex fam,
          SetAttr (length (heap w)) ''hnsw.efConstruction'' (ef_construction cfg),
          SetAttr (length (heap w)) ''hnsw.efSearch'' (ef_search cfg),
          SetAttr (length (heap w)) ''base_level_only'' (base_level_only cfg),
          CopyTo g (length (heap w)),
          SetRef m ''index'' None,
          SetRef b ''index_id_map'' None,
          SetRef m ''index'' (Some (length (heap w))),
          Cleanup b]"
proof -
  from assms(1-4) have lt: "self < length (heap w)" "b < length (heap w)" "g < length (heap w)"
    "m < length (heap w)"
    and nth: "heap w ! self = BuilderObj cfg"
      "heap w ! b = GpuOutputObj \<lparr>gpu_index = Some g, gpu_index_id_map = Some m\<rparr>"
      "heap w ! g = GpuIndexObj fam0" "heap w ! m = IdMapObj old"
    by (auto simp: deref_def split: if_splits)
  from nth have ne: "b \<noteq> m" by auto
  show ?thesis
    using lt nth ne assms(5-9) by (simp add: forward_defs split: option.splits)
qed

lemma gpu_world_intact:
  "deref (gpu_world cfg fam) 3 =
     Some (GpuOutputObj \<lparr>gpu_index = Some 1, gpu_index_id_map = Some 2\<rparr>)"
  "deref (gpu_world cfg fam) 1 = Some (GpuIndexObj fam)"
  "deref (gpu_world cfg fam) 2 = Some (IdMapObj (Some 1))"
  "length (heap (gpu_world cfg fam)) = 4"
  by (simp_all add: gpu_world_def deref_def)

section \<open>The properties of the specification\<close>

text \<open>
  C1, as amended. When the writer the data type selects returns, \<open>write_cpu_index\<close>
  calls \<open>cleanup\<close> of the CPU build output once, after the write. When the writer
  raises, the error leaves \<open>write_cpu_index\<close> wrapped and \<open>cleanup\<close> is not called.
\<close>

theorem write_cleanup_after_write:
  assumes "deref w self = Some (BuilderObj cfg)"
    and "deref w b = Some (CpuOutputObj bundle)"
    and "wr = (if vector_dtype cfg \<noteq> PyDataType BINARY
               then write_index_raises env (cpu_index_id_map bundle) path
               else write_index_binary_raises env (cpu_index_id_map bundle) path)"
    and "write_cpu_index env self b path w = (r, w')"
  shows "\<exists>ev. (ev = WriteIndex (cpu_index_id_map bundle) path
               \<or> ev = WriteIndexBinary (cpu_index_id_map bundle) path)
     \<and> (wr = None \<longrightarrow> trace w' = trace w @ [ev, Cleanup b])
     \<and> (\<forall>e0. wr = Some e0 \<longrightarrow> trace w' = trace w @ [ev] \<and> r = Inl (write_error path e0))"
proof (cases "vector_dtype cfg \<noteq> PyDataType BINARY")
  case True
  with assms show ?thesis
    by (intro exI [of _ "WriteIndex (cpu_index_id_map bundle) path"])
      (auto simp: write_cpu_index_run split: option.splits)
next
  case False
  with assms show ?thesis
    by (intro exI [of _ "WriteIndexBinary (cpu_index_id_map bundle) path"])
      (auto simp: write_cpu_index_run split: option.splits)
qed

theorem write_cleanup_after_write_witness:
  "trace (snd (write_cpu_index quiet_env 0 3 ''/tmp/index.faiss''
                (cpu_world default_params Standard))) =
     [WriteIndex (Some 2) ''/tmp/index.faiss'', Cleanup 3]
   \<and> trace (snd (write_cpu_index unwritable_env 0 3 ''/nonexistent/index.faiss''
                (cpu_world default_params Standard))) =
     [WriteIndex (Some 2) ''/nonexistent/index.faiss'']"
proof -
  have 1: "None = (if vector_dtype default_params \<noteq> PyDataType BINARY
               then write_index_raises quiet_env
                      (cpu_index_id_map \<lparr>cpu_index = Some 1, cpu_index_id_map = Some 2\<rparr>)
                      ''/tmp/index.faiss''
               else write_index_binary_raises quiet_env
                      (cpu_index_id_map \<lparr>cpu_index = Some 1, cpu_index_id_map = Some 2\<rparr>)
                      ''/tmp/index.faiss'')"
    by (simp add: quiet_env_def default_params_def)
  have 2: "Some (Exc RuntimeError ''could not open file for writing'' None) =
       (if vector_dtype default_params \<noteq> PyDataType BINARY
               then write_index_raises unwritable_env
                      (cpu_index_id_map \<lparr>cpu_index = Some 1, cpu_index_id_map = Some 2\<rparr>)
                      ''/nonexistent/index.faiss''
               else write_index_binary_raises unwritable_env
                      (cpu_index_id_map \<lparr>cpu_index = Some 1, cpu_index_id_map = Some 2\<rparr>)
                      ''/nonexistent/index.faiss'')"
    by (simp add: unwritable_env_def quiet_env_def default_params_def)
  from write_cleanup_after_write [OF cpu_world_objects 1 write_run]
    write_cleanup_after_write [OF cpu_world_objects 2 unwritable_run]
  show ?thesis
    by (simp add: write_run unwritable_run)
qed

text \<open>
  C1, as stated, fails: the write to a path that cannot be opened raises, and
  \<open>cleanup\<close> of the CPU build output has not been called when the error leaves
  \<open>write_cpu_index\<close>.
\<close>

theorem write_failure_skips_cleanup:
  "fst (write_cpu_index unwritable_env 0 3 ''/nonexistent/index.faiss''
          (cpu_world default_params Standard)) =
     Inl (Exc Exception
            ''Unexpected error while writing index to file: could not open file for writing''
            (Some (Exc RuntimeError ''could not open file for writing'' None)))
   \<and> count_list (trace (snd (write_cpu_index unwritable_env 0 3 ''/nonexistent/index.faiss''
          (cpu_world default_params Standard)))) (Cleanup 3) = 0"
  by (simp add: unwritable_run)

text \<open>
  C2. Let the builder be an object of the store and \<open>fam\<close> the family its data type
  selects. The exception that leaves the statements of the \<open>try\<close> block, whatever
  step raised it, leaves the conversion as the cause of an \<open>Exception\<close> whose message
  is \<open>Failed to convert GPU index to CPU index: \<close> followed by its text, in the world
  of the raise; every exception that leaves the conversion is such a one, and no CPU
  build output has been created then. A conversion that returns has had no step raise.
  For a GPU build output that holds a GPU index and an ID map, the result is decided
  by the first call that raises, in the order constructor, \<open>hnsw.efConstruction\<close>,
  \<open>hnsw.efSearch\<close>, \<open>base_level_only\<close>, copy, \<open>cleanup\<close>; for one whose ID map is
  \<open>None\<close> the relocation raises, and that error is wrapped the same way.
\<close>

theorem conversion_failure_wrapped:
  assumes "deref w self = Some (BuilderObj cfg)"
    and "fam = (if vector_dtype cfg \<noteq> PyDataType BINARY then Standard else Binary)"
  shows "(\<forall>e0 w1. try_body env fam self b w = (Inl e0, w1) \<longrightarrow>
            convert_gpu_to_cpu_index env self b w =
              (Inl (Exc Exception
                      (''Failed to convert GPU index to CPU index: '' @ message e0) (Some e0)),
               w1))
     \<and> (\<forall>e w'. convert_gpu_to_cpu_index env self b w = (Inl e, w') \<longrightarrow>
           (\<exists>e0. try_body env fam self b w = (Inl e0, w')
              \<and> e = Exc Exception
                        (''Failed to convert GPU index to CPU index: '' @ message e0) (Some e0))
           \<and> (\<forall>r bundle. deref w' r = Some (CpuOutputObj bundle) \<longrightarrow>
                  deref w r = Some (CpuOutputObj bundle)))
     \<and> (\<forall>out w'. convert_gpu_to_cpu_index env self b w = (Inr out, w') \<longrightarrow>
           try_body env fam self b w = (Inr out, w')
           \<and> new_index_raises env fam = None
           \<and> setattr_raises env ''hnsw.efConstruction'' (ef_construction cfg) = None
           \<and> setattr_raises env ''hnsw.efSearch'' (ef_search cfg) = None
           \<and> setattr_raises env ''base_level_only'' (base_level_only cfg) = None
           \<and> (\<exists>g m. deref w b = Some (GpuOutputObj \<lparr>gpu_index = Some g, gpu_index_id_map = Some m\<rparr>)
                \<and> copyTo_raises env g (length (heap w)) = None)
           \<and> cleanup_raises env b = None)
     \<and> (\<forall>g m fam0 old.
           deref w b = Some (GpuOutputObj \<lparr>gpu_index = Some g, gpu_index_id_map = Some m\<rparr>) \<longrightarrow>
           deref w g = Some (GpuIndexObj fam0) \<longrightarrow>
           deref w m = Some (IdMapObj old) \<longrightarrow>
           fst (convert_gpu_to_cpu_index env self b w) =
             (case new_index_raises env fam of
                Some e0 \<Rightarrow> Inl (convert_error e0)
              | None \<Rightarrow>
             (case setattr_raises env ''hnsw.efConstruction'' (ef_construction cfg) of
                Some e0 \<Rightarrow> Inl (convert_error e0)
              | None \<Rightarrow>
             (case setattr_raises env ''hnsw.efSearch'' (ef_search cfg) of
                Some e0 \<Rightarrow> Inl (convert_error e0)
              | None \<Rightarrow>
             (case setattr_raises env ''base_level_only'' (base_level_only cfg) of
                Some e0 \<Rightarrow> Inl (convert_error e0)
              | None \<Rightarrow>
             (case copyTo_raises env g (length (heap w)) of
                Some e0 \<Rightarrow> Inl (convert_error e0)
              | None \<Rightarrow>
             (case cleanup_raises env b of
                Some e0 \<Rightarrow> Inl (convert_error e0)
              | None \<Rightarrow> Inr (Suc (length (heap w))))))))))
     \<and> (\<forall>g fam0.
           deref w b = Some (GpuOutputObj \<lparr>gpu_index = Some g, gpu_index_id_map = None\<rparr>) \<longrightarrow>
           deref w g = Some (GpuIndexObj fam0) \<longrightarrow>
           new_index_raises env fam = None \<longrightarrow>
           setattr_raises env ''hnsw.efConstruction'' (ef_construction cfg) = None \<longrightarrow>
           setattr_raises env ''hnsw.efSearch'' (ef_search cfg) = None \<longrightarrow>
           setattr_raises env ''base_level_only'' (base_level_only cfg) = None \<longrightarrow>
           copyTo_raises env g (length (heap w)) = None \<longrightarrow>
           fst (convert_gpu_to_cpu_index env self b w) =
             Inl (convert_error (no_attribute ''index'')))"
proof -
  have disp: "convert_gpu_to_cpu_index env self b w =
      try_except (try_body env fam self b) (\<lambda>e. raise (convert_error e)) w"
    using assms by (simp add: convert_dispatch)
  have 1: "\<forall>e0 w1. try_body env fam self b w = (Inl e0, w1) \<longrightarrow>
            convert_gpu_to_cpu_index env self b w = (Inl (convert_error e0), w1)"
    unfolding disp by (simp add: try_except_def raise_def)
  have 2: "\<forall>e w'. convert_gpu_to_cpu_index env self b w = (Inl e, w') \<longrightarrow>
           (\<exists>e0. try_body env fam self b w = (Inl e0, w') \<and> e = convert_error e0)
           \<and> (\<forall>r bundle. deref w' r = Some (CpuOutputObj bundle) \<longrightarrow>
                  deref w r = Some (CpuOutputObj bundle))"
  proof (intro allI impI conjI)
    fix e w'
    assume run: "convert_gpu_to_cpu_index env self b w = (Inl e, w')"
    then have "try_except (try_body env fam self b) (\<lambda>e. raise (convert_error e)) w =
        (Inl e, w')"
      by (simp only: disp)
    then show "\<exists>e0. try_body env fam self b w = (Inl e0, w') \<and> e = convert_error e0"
      by (cases rule: try_except_cases) auto
    fix r bdl
    assume "deref w' r = Some (CpuOutputObj bdl)"
    moreover from run convert_failure_keeps_stable [of env self b w e]
    have "same_stable w w'" by simp
    ultimately show "deref w r = Some (CpuOutputObj bdl)"
      unfolding same_stable_def by (metis stable.simps(3))
  qed
  have 3: "\<forall>out w'. convert_gpu_to_cpu_index env self b w = (Inr out, w') \<longrightarrow>
           try_body env fam self b w = (Inr out, w')
           \<and> new_index_raises env fam = None
           \<and> setattr_raises env ''hnsw.efConstruction'' (ef_construction cfg) = None
           \<and> setattr_raises env ''hnsw.efSearch'' (ef_search cfg) = None
           \<and> setattr_raises env ''base_level_only'' (base_level_only cfg) = None
           \<and> (\<exists>g m. deref w b = Some (GpuOutputObj \<lparr>gpu_index = Some g, gpu_index_id_map = Some m\<rparr>)
                \<and> copyTo_raises env g (length (heap w)) = None)
           \<and> cleanup_raises env b = None"
  proof (intro allI impI)
    fix out w'
    assume run: "convert_gpu_to_cpu_index env self b w = (Inr out, w')"
    then have "try_except (try_body env fam self b) (\<lambda>e. raise (convert_error e)) w =
        (Inr out, w')"
      by (simp only: disp)
    then have tb: "try_body env fam self b w = (Inr out, w')"
      by (rule try_except_raise_Inr)
    from run have "new_index_raises env fam = None
           \<and> setattr_raises env ''hnsw.efConstruction'' (ef_construction cfg) = None
           \<and> setattr_raises env ''hnsw.efSearch'' (ef_search cfg) = None
           \<and> setattr_raises env ''base_level_only'' (base_level_only cfg) = None
           \<and> (\<exists>g m. deref w b = Some (GpuOutputObj \<lparr>gpu_index = Some g, gpu_index_id_map = Some m\<rparr>)
                \<and> copyTo_raises env g (length (heap w)) = None)
           \<and> cleanup_raises env b = None"
    proof (cases rule: convert_gpu_to_cpu_index_success)
      case (1 cfg' g m fam0 old fam')
      from 1(1) assms(1) have "cfg' = cfg" by simp
      with 1 assms(2) show ?thesis by auto
    qed
    with tb show "try_body env fam self b w = (Inr out, w')
           \<and> new_index_raises env fam = None
           \<and> setattr_raises env ''hnsw.efConstruction'' (ef_construction cfg) = None
           \<and> setattr_raises env ''hnsw.efSearch'' (ef_search cfg) = None
           \<and> setattr_raises env ''base_level_only'' (base_level_only cfg) = None
           \<and> (\<exists>g m. deref w b = Some (GpuOutputObj \<lparr>gpu_index = Some g, gpu_index_id_map = Some m\<rparr>)
                \<and> copyTo_raises env g (length (heap w)) = None)
           \<and> cleanup_raises env b = None"
      by simp
  qed
  have 4: "\<forall>g m fam0 old.
           deref w b = Some (GpuOutputObj \<lparr>gpu_index = Some g, gpu_index_id_map = Some m\<rparr>) \<longrightarrow>
           deref w g = Some (GpuIndexObj fam0) \<longrightarrow>
           deref w m = Some (IdMapObj old) \<longrightarrow>
           fst (convert_gpu_to_cpu_index env self b w) =
             (case new_index_raises env fam of
                Some e0 \<Rightarrow> Inl (convert_error e0)
              | None \<Rightarrow>
             (case setattr_raises env ''hnsw.efConstruction'' (ef_construction cfg) of
                Some e0 \<Rightarrow> Inl (convert_error e0)
              | None \<Rightarrow>
             (case setattr_raises env ''hnsw.efSearch'' (ef_search cfg) of
                Some e0 \<Rightarrow> Inl (convert_error e0)
              | None \<Rightarrow>
             (case setattr_raises env ''base_level_only'' (base_level_only cfg) of
                Some e0 \<Rightarrow> Inl (convert_error e0)
              | None \<Rightarrow>
             (case copyTo_raises env g (length (heap w)) of
                Some e0 \<Rightarrow> Inl (convert_error e0)
              | None \<Rightarrow>
             (case cleanup_raises env b of
                Some e0 \<Rightarrow> Inl (convert_error e0)
              | None \<Rightarrow> Inr (Suc (length (heap w)))))))))"
    unfolding disp try_except_worlds(2)
    by (intro allI impI) (simp add: try_body_fst [OF assms(1)] split: option.splits)
  have 5: "\<forall>g fam0.
           deref w b = Some (GpuOutputObj \<lparr>gpu_index = Some g, gpu_index_id_map = None\<rparr>) \<longrightarrow>
           deref w g = Some (GpuIndexObj fam0) \<longrightarrow>
           new_index_raises env fam = None \<longrightarrow>
           setattr_raises env ''hnsw.efConstruction'' (ef_construction cfg) = None \<longrightarrow>
           setattr_raises env ''hnsw.efSearch'' (ef_search cfg) = None \<longrightarrow>
           setattr_raises env ''base_level_only'' (base_level_only cfg) = None \<longrightarrow>
           copyTo_raises env g (length (heap w)) = None \<longrightarrow>
           fst (convert_gpu_to_cpu_index env self b w) =
             Inl (convert_error (no_attribute ''index''))"
    unfolding disp try_except_worlds(2)
    by (intro allI impI) (simp add: try_body_fst_no_id_map [OF assms(1)])
  from 1 2 3 4 5 show ?thesis by (intro conjI)
qed

theorem conversion_failure_wrapped_witness:
  "fst (convert_gpu_to_cpu_index copy_fails_env 0 3 (gpu_world round_trip_params Standard)) =
     Inl (Exc Exception ''Failed to convert GPU index to CPU index: copyTo failed''
            (Some (Exc RuntimeError ''copyTo failed'' None)))
   \<and> convert_gpu_to_cpu_index copy_fails_env 0 3 (gpu_world binary_params Binary) =
     (Inl (Exc Exception ''Failed to convert GPU index to CPU index: copyTo failed''
             (Some (Exc RuntimeError ''copyTo failed'' None))),
      \<lparr>heap = [BuilderObj binary_params, GpuIndexObj Binary, IdMapObj (Some 1),
              GpuOutputObj \<lparr>gpu_index = Some 1, gpu_index_id_map = Some 2\<rparr>,
              CpuIndexObj \<lparr>family = Binary, hnsw_efConstruction = PyInt 100,
                hnsw_efSearch = PyInt 100, index_base_level_only = PyBool True,
                copied_from = None\<rparr>],
       trace = [NewIndex Binary, SetAttr 4 ''hnsw.efConstruction'' (PyInt 100),
                SetAttr 4 ''hnsw.efSearch'' (PyInt 100),
                SetAttr 4 ''base_level_only'' (PyBool True), CopyTo 1 4]\<rparr>)
   \<and> fst (convert_gpu_to_cpu_index cleanup_fails_env 0 3 (gpu_world binary_params Binary)) =
     Inl (Exc Exception ''Failed to convert GPU index to CPU index: cleanup failed''
            (Some (Exc RuntimeError ''cleanup failed'' None)))"
proof -
  have f: "Standard = (if vector_dtype round_trip_params \<noteq> PyDataType BINARY
                       then Standard else Binary)"
    and bin: "Binary = (if vector_dtype binary_params \<noteq> PyDataType BINARY
                       then Standard else Binary)"
    by (simp_all add: round_trip_params_def binary_params_def)
  from conversion_failure_wrapped [where env = copy_fails_env,
      OF gpu_world_objects(1) f, THEN conjunct2, THEN conjunct2, THEN conjunct2,
      THEN conjunct1, rule_format, OF gpu_world_intact(1-3)]
    conversion_failure_wrapped [OF gpu_world_objects(1) bin, THEN conjunct1, rule_format,
      OF binary_copy_failure_body]
    conversion_failure_wrapped [where env = cleanup_fails_env,
      OF gpu_world_objects(1) bin, THEN conjunct2, THEN conjunct2, THEN conjunct2,
      THEN conjunct1, rule_format, OF gpu_world_intact(1-3)]
  show ?thesis
    by (simp add: copy_fails_env_def cleanup_fails_env_def quiet_env_def)
qed



text \<open>
  C4. Every run of the conversion, returning or raising, is of one of two kinds.
  Either it raises before the relocation: no assignment to a reference and no
  \<open>cleanup\<close> is among its events, and every object of the store other than a CPU index
  is what it was. Or it has run the three writes of the relocation as three
  consecutive statements, in this order: from the world \<open>w0\<close> after the copy, \<open>None\<close>
  to the \<open>index\<close> of the ID map, giving \<open>wa\<close>; then \<open>None\<close> to the field
  \<open>index_id_map\<close> of the GPU build output, giving \<open>wb\<close>; then the CPU index to the
  \<open>index\<close> of the ID map, giving \<open>w3\<close>, from which \<open>cleanup\<close> and the construction
  of the CPU build output lead to the final world. The \<open>index\<close> of the ID map is what
  it was in \<open>w0\<close>, \<open>None\<close> in \<open>wa\<close> and \<open>wb\<close>, and the CPU index from \<open>w3\<close> on, and
  the CPU index is not the GPU index. The events of such a run are exactly the nine
  events in program order, and the run returns the new CPU build output when
  \<open>cleanup\<close> returns and raises the wrapped error of \<open>cleanup\<close> when it raises, the
  relocation done in both cases. And for a GPU build output that holds a GPU index
  and an ID map, the run is of the second kind as soon as the constructor, the three
  setters and the copy do not raise, for both families.
\<close>

theorem relocation_order:
  assumes "convert_gpu_to_cpu_index env self b w = (r, w')"
  shows "((isl r \<and> no_ref_write w w')
     \<or> (\<exists>cfg fam c g m old w0 wa wb w3.
          deref w self = Some (BuilderObj cfg)
        \<and> fam = (if vector_dtype cfg \<noteq> PyDataType BINARY then Standard else Binary)
        \<and> deref w b = Some (GpuOutputObj \<lparr>gpu_index = Some g, gpu_index_id_map = Some m\<rparr>)
        \<and> deref w m = Some (IdMapObj old)
        \<and> c = length (heap w) \<and> c \<noteq> g
        \<and> configure_and_copy env fam self b w = (Inr c, w0)
        \<and> trace w0 = trace w @
             [NewIndex fam,
              SetAttr c ''hnsw.efConstruction'' (ef_construction cfg),
              SetAttr c ''hnsw.efSearch'' (ef_search cfg),
              SetAttr c ''base_level_only'' (base_level_only cfg),
              CopyTo g c]
        \<and> deref w0 m = Some (IdMapObj old)
        \<and> deref w0 b = Some (GpuOutputObj \<lparr>gpu_index = Some g, gpu_index_id_map = Some m\<rparr>)
        \<and> set_index (Some m) None w0 = (Inr (), wa)
        \<and> deref wa m = Some (IdMapObj None)
        \<and> deref wa b = Some (GpuOutputObj \<lparr>gpu_index = Some g, gpu_index_id_map = Some m\<rparr>)
        \<and> set_gpu_index_id_map b None wa = (Inr (), wb)
        \<and> deref wb m = Some (IdMapObj None)
        \<and> deref wb b = Some (GpuOutputObj \<lparr>gpu_index = Some g, gpu_index_id_map = None\<rparr>)
        \<and> set_index (Some m) (Some c) wb = (Inr (), w3)
        \<and> deref w3 m = Some (IdMapObj (Some c))
        \<and> deref w3 b = Some (GpuOutputObj \<lparr>gpu_index = Some g, gpu_index_id_map = None\<rparr>)
        \<and> snd (cleanup_and_return env b c (Some m) w3) = w'
        \<and> trace w' = trace w @
             [NewIndex fam,
              SetAttr c ''hnsw.efConstruction'' (ef_construction cfg),
              SetAttr c ''hnsw.efSearch'' (ef_search cfg),
              SetAttr c ''base_level_only'' (base_level_only cfg),
              CopyTo g c,
              SetRef m ''index'' None,
              SetRef b ''index_id_map'' None,
              SetRef m ''index'' (Some c),
              Cleanup b]
        \<and> deref w' m = Some (IdMapObj (Some c))
        \<and> deref w' b = Some (GpuOutputObj \<lparr>gpu_index = Some g, gpu_index_id_map = None\<rparr>)
        \<and> ((cleanup_raises env b = None \<and> r = Inr (Suc c))
             \<or> (\<exists>e0. cleanup_raises env b = Some e0 \<and> r = Inl (convert_error e0)))))
   \<and> (\<forall>cfg g m fam0 old.
         deref w self = Some (BuilderObj cfg) \<longrightarrow>
         deref w b = Some (GpuOutputObj \<lparr>gpu_index = Some g, gpu_index_id_map = Some m\<rparr>) \<longrightarrow>
         deref w g = Some (GpuIndexObj fam0) \<longrightarrow>
         deref w m = Some (IdMapObj old) \<longrightarrow>
         new_index_raises env
           (if vector_dtype cfg \<noteq> PyDataType BINARY then Standard else Binary) = None \<longrightarrow>
         setattr_raises env ''hnsw.efConstruction'' (ef_construction cfg) = None \<longrightarrow>
         setattr_raises env ''hnsw.efSearch'' (ef_search cfg) = None \<longrightarrow>
         setattr_raises env ''base_level_only'' (base_level_only cfg) = None \<longrightarrow>
         copyTo_raises env g (length (heap w)) = None \<longrightarrow>
         trace w' = trace w @
           [NewIndex (if vector_dtype cfg \<noteq> PyDataType BINARY then Standard else Binary),
            SetAttr (length (heap w)) ''hnsw.efConstruction'' (ef_construction cfg),
            SetAttr (length (heap w)) ''hnsw.efSearch'' (ef_search cfg),
            SetAttr (length (heap w)) ''base_level_only'' (base_level_only cfg),
            CopyTo g (length (heap w)),
            SetRef m ''index'' None,
            SetRef b ''index_id_map'' None,
            SetRef m ''index'' (Some (length (heap w))),
            Cleanup b])"
proof (cases "\<exists>cfg. deref w self = Some (BuilderObj cfg)")
  case False
  then have "convert_gpu_to_cpu_index env self b w = (Inl (no_attribute ''of the builder''), w)"
    by (intro convert_without_builder) simp
  with assms have "r = Inl (no_attribute ''of the builder'')" and "w' = w" by simp_all
  then have "isl r" and "w' = w" by simp_all
  with False show ?thesis by (simp add: no_ref_write_refl)
next
  case True
  then obtain cfg where cfg: "deref w self = Some (BuilderObj cfg)" ..
  let ?fam = "if vector_dtype cfg \<noteq> PyDataType BINARY then Standard else Binary"
  let ?body = "try_body env ?fam self b"
  have disp: "convert_gpu_to_cpu_index env self b w =
      try_except ?body (\<lambda>e. raise (convert_error e)) w"
    using cfg by (rule convert_dispatch)
  from assms have w': "w' = snd (?body w)"
    and r: "r = (case fst (?body w) of Inl e \<Rightarrow> Inl (convert_error e) | Inr x \<Rightarrow> Inr x)"
    unfolding disp using try_except_worlds [of ?body convert_error w]
    by simp_all
  have body: "?body w = (fst (?body w), w')" by (simp add: w')
  have forward: "\<forall>cfg g m fam0 old.
         deref w self = Some (BuilderObj cfg) \<longrightarrow>
         deref w b = Some (GpuOutputObj \<lparr>gpu_index = Some g, gpu_index_id_map = Some m\<rparr>) \<longrightarrow>
         deref w g = Some (GpuIndexObj fam0) \<longrightarrow>
         deref w m = Some (IdMapObj old) \<longrightarrow>
         new_index_raises env
           (if vector_dtype cfg \<noteq> PyDataType BINARY then Standard else Binary) = None \<longrightarrow>
         setattr_raises env ''hnsw.efConstruction'' (ef_construction cfg) = None \<longrightarrow>
         setattr_raises env ''hnsw.efSearch'' (ef_search cfg) = None \<longrightarrow>
         setattr_raises env ''base_level_only'' (base_level_only cfg) = None \<longrightarrow>
         copyTo_raises env g (length (heap w)) = None \<longrightarrow>
         trace w' = trace w @
           [NewIndex (if vector_dtype cfg \<noteq> PyDataType BINARY then Standard else Binary),
            SetAttr (length (heap w)) ''hnsw.efConstruction'' (ef_construction cfg),
            SetAttr (length (heap w)) ''hnsw.efSearch'' (ef_search cfg),
            SetAttr (length (heap w)) ''base_level_only'' (base_level_only cfg),
            CopyTo g (length (heap w)),
            SetRef m ''index'' None,
            SetRef b ''index_id_map'' None,
            SetRef m ''index'' (Some (length (heap w))),
            Cleanup b]"
  proof (intro allI impI)
    fix cfg' g m fam0 old
    assume a: "deref w self = Some (BuilderObj cfg')"
      "deref w b = Some (GpuOutputObj \<lparr>gpu_index = Some g, gpu_index_id_map = Some m\<rparr>)"
      "deref w g = Some (GpuIndexObj fam0)"
      "deref w m = Some (IdMapObj old)"
      "new_index_raises env
           (if vector_dtype cfg' \<noteq> PyDataType BINARY then Standard else Binary) = None"
      "setattr_raises env ''hnsw.efConstruction'' (ef_construction cfg') = None"
      "setattr_raises env ''hnsw.efSearch'' (ef_search cfg') = None"
      "setattr_raises env ''base_level_only'' (base_level_only cfg') = None"
      "copyTo_raises env g (length (heap w)) = None"
    from a(1) cfg have c: "cfg' = cfg" by simp
    from a show "trace w' = trace w @
           [NewIndex (if vector_dtype cfg' \<noteq> PyDataType BINARY then Standard else Binary),
            SetAttr (length (heap w)) ''hnsw.efConstruction'' (ef_construction cfg'),
            SetAttr (length (heap w)) ''hnsw.efSearch'' (ef_search cfg'),
            SetAttr (length (heap w)) ''base_level_only'' (base_level_only cfg'),
            CopyTo g (length (heap w)),
            SetRef m ''index'' None,
            SetRef b ''index_id_map'' None,
            SetRef m ''index'' (Some (length (heap w))),
            Cleanup b]"
      unfolding c w' by (rule try_body_trace)
  qed
  from try_body_outcome [OF body]
  have "(isl r \<and> no_ref_write w w')
     \<or> (\<exists>cfg fam c g m old w0 wa wb w3.
          deref w self = Some (BuilderObj cfg)
        \<and> fam = (if vector_dtype cfg \<noteq> PyDataType BINARY then Standard else Binary)
        \<and> deref w b = Some (GpuOutputObj \<lparr>gpu_index = Some g, gpu_index_id_map = Some m\<rparr>)
        \<and> deref w m = Some (IdMapObj old)
        \<and> c = length (heap w) \<and> c \<noteq> g
        \<and> configure_and_copy env fam self b w = (Inr c, w0)
        \<and> trace w0 = trace w @
             [NewIndex fam,
              SetAttr c ''hnsw.efConstruction'' (ef_construction cfg),
              SetAttr c ''hnsw.efSearch'' (ef_search cfg),
              SetAttr c ''base_level_only'' (base_level_only cfg),
              CopyTo g c]
        \<and> deref w0 m = Some (IdMapObj old)
        \<and> deref w0 b = Some (GpuOutputObj \<lparr>gpu_index = Some g, gpu_index_id_map = Some m\<rparr>)
        \<and> set_index (Some m) None w0 = (Inr (), wa)
        \<and> deref wa m = Some (IdMapObj None)
        \<and> deref wa b = Some (GpuOutputObj \<lparr>gpu_index = Some g, gpu_index_id_map = Some m\<rparr>)
        \<and> set_gpu_index_id_map b None wa = (Inr (), wb)
        \<and> deref wb m = Some (IdMapObj None)
        \<and> deref wb b = Some (GpuOutputObj \<lparr>gpu_index = Some g, gpu_index_id_map = None\<rparr>)
        \<and> set_index (Some m) (Some c) wb = (Inr (), w3)
        \<and> deref w3 m = Some (IdMapObj (Some c))
        \<and> deref w3 b = Some (GpuOutputObj \<lparr>gpu_index = Some g, gpu_index_id_map = None\<rparr>)
        \<and> snd (cleanup_and_return env b c (Some m) w3) = w'
        \<and> trace w' = trace w @
             [NewIndex fam,
              SetAttr c ''hnsw.efConstruction'' (ef_construction cfg),
              SetAttr c ''hnsw.efSearch'' (ef_search cfg),
              SetAttr c ''base_level_only'' (base_level_only cfg),
              CopyTo g c,
              SetRef m ''index'' None,
              SetRef b ''index_id_map'' None,
              SetRef m ''index'' (Some c),
              Cleanup b]
        \<and> deref w' m = Some (IdMapObj (Some c))
        \<and> deref w' b = Some (GpuOutputObj \<lparr>gpu_index = Some g, gpu_index_id_map = None\<rparr>)
        \<and> ((cleanup_raises env b = None \<and> r = Inr (Suc c))
             \<or> (\<exists>e0. cleanup_raises env b = Some e0 \<and> r = Inl (convert_error e0))))"
  proof (elim disjE, goal_cases)
    case 1
    then have "isl (fst (?body w))" and "no_ref_write w w'" by simp_all
    moreover from this(1) r have "isl r" by (cases "fst (?body w)") simp_all
    ultimately show ?case by simp
  next
    case 2
    then obtain cfg' c g m old w0 wa wb w3 where
      a: "deref w self = Some (BuilderObj cfg')"
      "deref w b = Some (GpuOutputObj \<lparr>gpu_index = Some g, gpu_index_id_map = Some m\<rparr>)"
      "deref w m = Some (IdMapObj old)"
      "c = length (heap w)" "c \<noteq> g"
      "configure_and_copy env ?fam self b w = (Inr c, w0)"
      "trace w0 = trace w @
             [NewIndex ?fam,
              SetAttr c ''hnsw.efConstruction'' (ef_construction cfg'),
              SetAttr c ''hnsw.efSearch'' (ef_search cfg'),
              SetAttr c ''base_level_only'' (base_level_only cfg'),
              CopyTo g c]"
      "deref w0 m = Some (IdMapObj old)"
      "deref w0 b = Some (GpuOutputObj \<lparr>gpu_index = Some g, gpu_index_id_map = Some m\<rparr>)"
      "set_index (Some m) None w0 = (Inr (), wa)"
      "deref wa m = Some (IdMapObj None)"
      "deref wa b = Some (GpuOutputObj \<lparr>gpu_index = Some g, gpu_index_id_map = Some m\<rparr>)"
      "set_gpu_index_id_map b None wa = (Inr (), wb)"
      "deref wb m = Some (IdMapObj None)"
      "deref wb b = Some (GpuOutputObj \<lparr>gpu_index = Some g, gpu_index_id_map = None\<rparr>)"
      "set_index (Some m) (Some c) wb = (Inr (), w3)"
      "deref w3 m = Some (IdMapObj (Some c))"
      "deref w3 b = Some (GpuOutputObj \<lparr>gpu_index = Some g, gpu_index_id_map = None\<rparr>)"
      and fin: "cleanup_and_return env b c (Some m) w3 = (fst (?body w), w')"
      and b: "trace w' = trace w @
             [NewIndex ?fam,
              SetAttr c ''hnsw.efConstruction'' (ef_construction cfg'),
              SetAttr c ''hnsw.efSearch'' (ef_search cfg'),
              SetAttr c ''base_level_only'' (base_level_only cfg'),
              CopyTo g c,
              SetRef m ''index'' None,
              SetRef b ''index_id_map'' None,
              SetRef m ''index'' (Some c),
              Cleanup b]"
      "deref w' m = Some (IdMapObj (Some c))"
      "deref w' b = Some (GpuOutputObj \<lparr>gpu_index = Some g, gpu_index_id_map = None\<rparr>)"
      and res: "(cleanup_raises env b = None \<and> fst (?body w) = Inr (Suc c))
             \<or> (\<exists>e0. cleanup_raises env b = Some e0 \<and> fst (?body w) = Inl e0)"
      by (elim exE conjE)
    from a(1) cfg have c: "cfg' = cfg" by simp
    from fin have fin': "snd (cleanup_and_return env b c (Some m) w3) = w'" by simp
    from res r have res': "(cleanup_raises env b = None \<and> r = Inr (Suc c))
             \<or> (\<exists>e0. cleanup_raises env b = Some e0 \<and> r = Inl (convert_error e0))"
      by auto
    have fam: "?fam = ?fam" ..
    show ?case
      by (rule disjI2, rule exI [of _ cfg], rule exI [of _ ?fam], rule exI [of _ c],
          rule exI [of _ g], rule exI [of _ m], rule exI [of _ old], rule exI [of _ w0],
          rule exI [of _ wa], rule exI [of _ wb], rule exI [of _ w3], intro conjI)
        (rule cfg fam a(2-) [unfolded c] fin' b [unfolded c] res')+
  qed
  with forward show ?thesis by (rule conjI [rotated])
qed

theorem relocation_order_witness:
  "trace (snd (convert_gpu_to_cpu_index quiet_env 0 3 (gpu_world round_trip_params Standard))) =
     [NewIndex Standard, SetAttr 4 ''hnsw.efConstruction'' (PyInt 200),
      SetAttr 4 ''hnsw.efSearch'' (PyInt 50), SetAttr 4 ''base_level_only'' (PyBool False),
      CopyTo 1 4, SetRef 2 ''index'' None, SetRef 3 ''index_id_map'' None,
      SetRef 2 ''index'' (Some 4), Cleanup 3]
   \<and> trace (snd (convert_gpu_to_cpu_index quiet_env 0 3 (gpu_world binary_params Binary))) =
     [NewIndex Binary, SetAttr 4 ''hnsw.efConstruction'' (PyInt 100),
      SetAttr 4 ''hnsw.efSearch'' (PyInt 100), SetAttr 4 ''base_level_only'' (PyBool True),
      CopyTo 1 4, SetRef 2 ''index'' None, SetRef 3 ''index_id_map'' None,
      SetRef 2 ''index'' (Some 4), Cleanup 3]
   \<and> trace (snd (convert_gpu_to_cpu_index cleanup_fails_env 0 3
                   (gpu_world binary_params Binary))) =
     [NewIndex Binary, SetAttr 4 ''hnsw.efConstruction'' (PyInt 100),
      SetAttr 4 ''hnsw.efSearch'' (PyInt 100), SetAttr 4 ''base_level_only'' (PyBool True),
      CopyTo 1 4, SetRef 2 ''index'' None, SetRef 3 ''index_id_map'' None,
      SetRef 2 ''index'' (Some 4), Cleanup 3]
   \<and> fst (convert_gpu_to_cpu_index cleanup_fails_env 0 3 (gpu_world binary_params Binary)) =
     Inl (Exc Exception ''Failed to convert GPU index to CPU index: cleanup failed''
            (Some (Exc RuntimeError ''cleanup failed'' None)))
   \<and> deref (snd (convert_gpu_to_cpu_index cleanup_fails_env 0 3
                   (gpu_world binary_params Binary))) 2 = Some (IdMapObj (Some 4))"
proof -
  have run: "convert_gpu_to_cpu_index env 0 3 (gpu_world cfg fam) =
      (fst (convert_gpu_to_cpu_index env 0 3 (gpu_world cfg fam)),
       snd (convert_gpu_to_cpu_index env 0 3 (gpu_world cfg fam)))" for env cfg fam
    by simp
  have "trace (gpu_world cfg fam) = []" for cfg fam by (simp add: gpu_world_def)
  note facts = this gpu_world_intact(4) quiet_env_def cleanup_fails_env_def
    round_trip_params_def binary_params_def
  from relocation_order [OF run, THEN conjunct2, rule_format,
      OF gpu_world_objects(1) gpu_world_intact(1-3),
      where env = quiet_env and cfg = round_trip_params and fam = Standard]
  have 1: "trace (snd (convert_gpu_to_cpu_index quiet_env 0 3
                         (gpu_world round_trip_params Standard))) =
     [NewIndex Standard, SetAttr 4 ''hnsw.efConstruction'' (PyInt 200),
      SetAttr 4 ''hnsw.efSearch'' (PyInt 50), SetAttr 4 ''base_level_only'' (PyBool False),
      CopyTo 1 4, SetRef 2 ''index'' None, SetRef 3 ''index_id_map'' None,
      SetRef 2 ''index'' (Some 4), Cleanup 3]"
    by (simp add: facts)
  from relocation_order [OF run, THEN conjunct2, rule_format,
      OF gpu_world_objects(1) gpu_world_intact(1-3),
      where env = quiet_env and cfg = binary_params and fam = Binary]
  have 2: "trace (snd (convert_gpu_to_cpu_index quiet_env 0 3
                         (gpu_world binary_params Binary))) =
     [NewIndex Binary, SetAttr 4 ''hnsw.efConstruction'' (PyInt 100),
      SetAttr 4 ''hnsw.efSearch'' (PyInt 100), SetAttr 4 ''base_level_only'' (PyBool True),
      CopyTo 1 4, SetRef 2 ''index'' None, SetRef 3 ''index_id_map'' None,
      SetRef 2 ''index'' (Some 4), Cleanup 3]"
    by (simp add: facts)
  from relocation_order [OF run, THEN conjunct2, rule_format,
      OF gpu_world_objects(1) gpu_world_intact(1-3),
      where env = cleanup_fails_env and cfg = binary_params and fam = Binary]
  have 3: "trace (snd (convert_gpu_to_cpu_index cleanup_fails_env 0 3
                         (gpu_world binary_params Binary))) =
     [NewIndex Binary, SetAttr 4 ''hnsw.efConstruction'' (PyInt 100),
      SetAttr 4 ''hnsw.efSearch'' (PyInt 100), SetAttr 4 ''base_level_only'' (PyBool True),
      CopyTo 1 4, SetRef 2 ''index'' None, SetRef 3 ''index_id_map'' None,
      SetRef 2 ''index'' (Some 4), Cleanup 3]"
    by (simp add: facts)
  let ?w = "gpu_world binary_params Binary"
  let ?run = "convert_gpu_to_cpu_index cleanup_fails_env 0 3 ?w"
  have early: "\<not> no_ref_write ?w (snd ?run)"
    unfolding binary_cleanup_failure_run no_ref_write_def
    by (simp add: gpu_world_def)
  from relocation_order [OF run [of cleanup_fails_env binary_params Binary], THEN conjunct1]
    early
  obtain c g m where "deref ?w 3 =
      Some (GpuOutputObj \<lparr>gpu_index = Some g, gpu_index_id_map = Some m\<rparr>)"
    and "c = length (heap ?w)"
    and "deref (snd ?run) m = Some (IdMapObj (Some c))"
    and "(cleanup_raises cleanup_fails_env 3 = None \<and> fst ?run = Inr (Suc c))
             \<or> (\<exists>e0. cleanup_raises cleanup_fails_env 3 = Some e0
                    \<and> fst ?run = Inl (convert_error e0))"
    by (elim disjE exE conjE) simp_all
  then have 4: "fst ?run =
     Inl (Exc Exception ''Failed to convert GPU index to CPU index: cleanup failed''
            (Some (Exc RuntimeError ''cleanup failed'' None)))"
    and 5: "deref (snd ?run) 2 = Some (IdMapObj (Some 4))"
    by (auto simp: gpu_world_intact cleanup_fails_env_def quiet_env_def)
  from 1 2 3 4 5 show ?thesis by (intro conjI)
qed

text \<open>
  C5. After a conversion that returns, the ID map of the returned CPU build output is
  the ID map the GPU build output held, and its \<open>index\<close> is the CPU index the
  conversion created; the field \<open>index_id_map\<close> of the GPU build output is \<open>None\<close>;
  and \<open>cleanup\<close> of the GPU build output has been called once.
\<close>

theorem conversion_ownership:
  assumes "convert_gpu_to_cpu_index env self b w = (Inr out, w')"
  shows "\<exists>c m g idx evs.
      deref w b = Some (GpuOutputObj \<lparr>gpu_index = Some g, gpu_index_id_map = Some m\<rparr>)
    \<and> deref w c = None \<and> deref w' c = Some (CpuIndexObj idx)
    \<and> deref w' out = Some (CpuOutputObj \<lparr>cpu_index = Some c, cpu_index_id_map = Some m\<rparr>)
    \<and> deref w' m = Some (IdMapObj (Some c))
    \<and> deref w' b = Some (GpuOutputObj \<lparr>gpu_index = Some g, gpu_index_id_map = None\<rparr>)
    \<and> trace w' = trace w @ evs \<and> count_list evs (Cleanup b) = 1"
  using assms
proof (cases rule: convert_gpu_to_cpu_index_success)
  case (1 cfg g m fam0 old fam)
  from 1(3) 1(5) have bm: "b \<noteq> m" by auto
  have fresh: "deref w (length (heap w)) = None" by (rule deref_fresh)
  from 1(3) 1(5) have lt: "b < length (heap w)" "m < length (heap w)"
    by (auto dest: deref_bound)
  show ?thesis
    using 1(3) fresh lt bm unfolding 1(12) 1(13) 1(14)
    by (intro exI [of _ "length (heap w)"] exI [of _ m] exI [of _ g]) auto
qed

theorem conversion_ownership_witness:
  "deref (snd (convert_gpu_to_cpu_index quiet_env 0 3 (gpu_world round_trip_params Standard))) 5 =
     Some (CpuOutputObj \<lparr>cpu_index = Some 4, cpu_index_id_map = Some 2\<rparr>)
   \<and> deref (snd (convert_gpu_to_cpu_index quiet_env 0 3 (gpu_world round_trip_params Standard))) 2 =
     Some (IdMapObj (Some 4))
   \<and> deref (snd (convert_gpu_to_cpu_index quiet_env 0 3 (gpu_world round_trip_params Standard))) 3 =
     Some (GpuOutputObj \<lparr>gpu_index = Some 1, gpu_index_id_map = None\<rparr>)
   \<and> count_list
       (trace (snd (convert_gpu_to_cpu_index quiet_env 0 3 (gpu_world round_trip_params Standard))))
       (Cleanup 3) = 1"
  using conversion_ownership [OF round_trip_converts]
  by (simp add: round_trip_converts deref_def)

text \<open>
  C6. The data type of the builder selects the family. With \<open>FLOAT\<close> a conversion
  that returns has constructed a CPU index of the standard family
  (\<open>IndexHNSWCagra\<close>) and the write calls \<open>write_index\<close>, on the ID map of the
  build output and the given path, and never \<open>write_index_binary\<close>. With \<open>BINARY\<close>
  the CPU index is of the binary family (\<open>IndexBinaryHNSWCagra\<close>) and the write
  calls \<open>write_index_binary\<close> and never \<open>write_index\<close>.
\<close>

theorem dtype_dispatch:
  assumes "deref w self = Some (BuilderObj cfg)"
  shows "(vector_dtype cfg = PyDataType FLOAT \<longrightarrow>
           convert_gpu_to_cpu_index env self gpu_out w = (Inr out, w') \<longrightarrow>
           (\<exists>c m idx. deref w' out = Some (CpuOutputObj \<lparr>cpu_index = Some c, cpu_index_id_map = m\<rparr>)
              \<and> deref w c = None \<and> deref w' c = Some (CpuIndexObj idx) \<and> family idx = Standard))
     \<and> (vector_dtype cfg = PyDataType BINARY \<longrightarrow>
           convert_gpu_to_cpu_index env self gpu_out w = (Inr out, w') \<longrightarrow>
           (\<exists>c m idx. deref w' out = Some (CpuOutputObj \<lparr>cpu_index = Some c, cpu_index_id_map = m\<rparr>)
              \<and> deref w c = None \<and> deref w' c = Some (CpuIndexObj idx) \<and> family idx = Binary))
     \<and> (vector_dtype cfg = PyDataType FLOAT \<longrightarrow>
           deref w cpu_out = Some (CpuOutputObj bundle) \<longrightarrow>
           (\<exists>evs. trace (snd (write_cpu_index env self cpu_out path w)) =
                     trace w @ WriteIndex (cpu_index_id_map bundle) path # evs
                 \<and> set evs \<subseteq> {Cleanup cpu_out}))
     \<and> (vector_dtype cfg = PyDataType BINARY \<longrightarrow>
           deref w cpu_out = Some (CpuOutputObj bundle) \<longrightarrow>
           (\<exists>evs. trace (snd (write_cpu_index env self cpu_out path w)) =
                     trace w @ WriteIndexBinary (cpu_index_id_map bundle) path # evs
                 \<and> set evs \<subseteq> {Cleanup cpu_out}))"
proof -
  have conv: "\<exists>c m idx. deref w' out =
         Some (CpuOutputObj \<lparr>cpu_index = Some c, cpu_index_id_map = m\<rparr>)
       \<and> deref w c = None \<and> deref w' c = Some (CpuIndexObj idx)
       \<and> family idx = (if vector_dtype cfg \<noteq> PyDataType BINARY then Standard else Binary)"
    if run: "convert_gpu_to_cpu_index env self gpu_out w = (Inr out, w')"
    using run
  proof (cases rule: convert_gpu_to_cpu_index_success)
    case (1 cfg' g m fam0 old fam)
    from 1(1) assms have cfg: "cfg' = cfg" by simp
    from 1(3) 1(5) have bm: "gpu_out \<noteq> m" by auto
    have fresh: "deref w (length (heap w)) = None" by (rule deref_fresh)
    with 1(3) 1(5) have ne: "gpu_out \<noteq> length (heap w)" "m \<noteq> length (heap w)" by auto
    show ?thesis
      using 1(2) cfg fresh ne bm unfolding 1(12) 1(13)
      by (intro exI [of _ "length (heap w)"] exI [of _ "Some m"]) auto
  qed
  have wr: "\<exists>evs. trace (snd (write_cpu_index env self cpu_out path w)) =
       trace w @ (if vector_dtype cfg \<noteq> PyDataType BINARY
                  then WriteIndex (cpu_index_id_map bundle) path
                  else WriteIndexBinary (cpu_index_id_map bundle) path) # evs
       \<and> set evs \<subseteq> {Cleanup cpu_out}"
    if "deref w cpu_out = Some (CpuOutputObj bundle)"
    using assms that by (auto simp: write_cpu_index_run split: option.splits)
  show ?thesis
    using conv wr by (intro conjI impI) auto
qed

theorem dtype_dispatch_witness:
  "(\<exists>c m idx. deref (snd (convert_gpu_to_cpu_index quiet_env 0 3
                  (gpu_world round_trip_params Standard))) 5 =
        Some (CpuOutputObj \<lparr>cpu_index = Some c, cpu_index_id_map = m\<rparr>)
      \<and> deref (gpu_world round_trip_params Standard) c = None
      \<and> deref (snd (convert_gpu_to_cpu_index quiet_env 0 3
                  (gpu_world round_trip_params Standard))) c = Some (CpuIndexObj idx)
      \<and> family idx = Standard)
   \<and> (\<exists>c m idx. deref (snd (convert_gpu_to_cpu_index quiet_env 0 3
                  (gpu_world binary_params Binary))) 5 =
        Some (CpuOutputObj \<lparr>cpu_index = Some c, cpu_index_id_map = m\<rparr>)
      \<and> deref (gpu_world binary_params Binary) c = None
      \<and> deref (snd (convert_gpu_to_cpu_index quiet_env 0 3
                  (gpu_world binary_params Binary))) c = Some (CpuIndexObj idx)
      \<and> family idx = Binary)
   \<and> (\<exists>evs. trace (snd (write_cpu_index quiet_env 0 3 ''/tmp/index.faiss''
                (cpu_world default_params Standard))) =
          trace (cpu_world default_params Standard) @
          WriteIndex (cpu_index_id_map \<lparr>cpu_index = Some 1, cpu_index_id_map = Some 2\<rparr>)
            ''/tmp/index.faiss'' # evs
        \<and> set evs \<subseteq> {Cleanup 3})
   \<and> (\<exists>evs. trace (snd (write_cpu_index quiet_env 0 3 ''/tmp/index.faiss''
                (cpu_world binary_params Binary))) =
          trace (cpu_world binary_params Binary) @
          WriteIndexBinary (cpu_index_id_map \<lparr>cpu_index = Some 1, cpu_index_id_map = Some 2\<rparr>)
            ''/tmp/index.faiss'' # evs
        \<and> set evs \<subseteq> {Cleanup 3})"
proof -
  have f: "vector_dtype round_trip_params = PyDataType FLOAT"
    "vector_dtype default_params = PyDataType FLOAT"
    and bin: "vector_dtype binary_params = PyDataType BINARY"
    by (simp_all add: round_trip_params_def default_params_def binary_params_def)
  have r1: "convert_gpu_to_cpu_index quiet_env 0 3 (gpu_world round_trip_params Standard) =
      (Inr 5, snd (convert_gpu_to_cpu_index quiet_env 0 3 (gpu_world round_trip_params Standard)))"
    and r2: "convert_gpu_to_cpu_index quiet_env 0 3 (gpu_world binary_params Binary) =
      (Inr 5, snd (convert_gpu_to_cpu_index quiet_env 0 3 (gpu_world binary_params Binary)))"
    by (simp_all add: round_trip_converts binary_converts)
  note d1 = dtype_dispatch [OF gpu_world_objects(1), THEN conjunct1, rule_format, OF f(1) r1]
  note d2 = dtype_dispatch [OF gpu_world_objects(1), THEN conjunct2, THEN conjunct1, rule_format,
      OF bin r2]
  note d3 = dtype_dispatch [OF cpu_world_objects(1), THEN conjunct2, THEN conjunct2,
      THEN conjunct1, rule_format, OF f(2) cpu_world_objects(2),
      where env = quiet_env and path = "''/tmp/index.faiss''"]
  note d4 = dtype_dispatch [OF cpu_world_objects(1), THEN conjunct2, THEN conjunct2,
      THEN conjunct2, rule_format, OF bin cpu_world_objects(2),
      where env = quiet_env and path = "''/tmp/index.faiss''"]
  from d1 d2 d3 d4 show ?thesis by (intro conjI)
qed

text \<open>
  C7. The CPU index of a conversion that returns has \<open>hnsw.efSearch\<close>,
  \<open>hnsw.efConstruction\<close> and \<open>base_level_only\<close> equal to the fields \<open>ef_search\<close>,
  \<open>ef_construction\<close> and \<open>base_level_only\<close> of the builder, whatever their values
  and whichever of the two families the data type selects.
\<close>

theorem parameters_propagate:
  assumes "deref w self = Some (BuilderObj cfg)"
    and "convert_gpu_to_cpu_index env self b w = (Inr out, w')"
  shows "\<exists>c m idx.
      deref w' out = Some (CpuOutputObj \<lparr>cpu_index = Some c, cpu_index_id_map = m\<rparr>)
    \<and> deref w' c = Some (CpuIndexObj idx)
    \<and> family idx = (if vector_dtype cfg \<noteq> PyDataType BINARY then Standard else Binary)
    \<and> hnsw_efSearch idx = ef_search cfg
    \<and> hnsw_efConstruction idx = ef_construction cfg
    \<and> index_base_level_only idx = base_level_only cfg"
  using assms(2)
proof (cases rule: convert_gpu_to_cpu_index_success)
  case (1 cfg' g m fam0 old fam)
  from 1(1) assms(1) have cfg: "cfg' = cfg" by simp
  from 1(3) 1(5) have bm: "b \<noteq> m" by auto
  have fresh: "deref w (length (heap w)) = None" by (rule deref_fresh)
  with 1(3) 1(5) have ne: "b \<noteq> length (heap w)" "m \<noteq> length (heap w)" by auto
  show ?thesis
    using 1(2) cfg fresh ne bm unfolding 1(12) 1(13)
    by (intro exI [of _ "length (heap w)"] exI [of _ "Some m"]) auto
qed

theorem parameters_propagate_witness:
  "deref (snd (convert_gpu_to_cpu_index quiet_env 0 3 (gpu_world round_trip_params Standard))) 4 =
     Some (CpuIndexObj \<lparr>family = Standard, hnsw_efConstruction = PyInt 200,
             hnsw_efSearch = PyInt 50, index_base_level_only = PyBool False,
             copied_from = Some 1\<rparr>)
   \<and> deref (snd (convert_gpu_to_cpu_index quiet_env 0 3 (gpu_world binary_params Binary))) 4 =
     Some (CpuIndexObj \<lparr>family = Binary, hnsw_efConstruction = PyInt 100,
             hnsw_efSearch = PyInt 100, index_base_level_only = PyBool True,
             copied_from = Some 1\<rparr>)"
  using parameters_propagate [OF gpu_world_objects(1) round_trip_converts]
    parameters_propagate [OF gpu_world_objects(1) binary_converts]
  by (simp add: round_trip_converts binary_converts deref_def)

text \<open>
  C8. A dictionary with a key that is none of the four field names makes the
  construction raise (a \<open>TypeError\<close>, and nothing is constructed); a dictionary of
  field names only constructs a builder in which every field whose key is missing has
  its documented default and every field whose key is present has the value given.
\<close>

theorem from_dict_keys:
  "(k \<in> set (map fst kwargs) \<and> k \<notin> set field_names \<longrightarrow>
      (\<exists>e. from_dict (Some kwargs) w = (Inl e, w) \<and> exc_class e = TypeError))
   \<and> (set (map fst kwargs) \<subseteq> set field_names \<longrightarrow>
      (\<exists>b. from_dict (Some kwargs) w = (Inr (length (heap w)), w\<lparr>heap := heap w @ [BuilderObj b]\<rparr>)
         \<and> (map_of kwargs ''ef_search'' = None \<longrightarrow> ef_search b = PyInt 100)
         \<and> (map_of kwargs ''ef_construction'' = None \<longrightarrow> ef_construction b = PyInt 100)
         \<and> (map_of kwargs ''base_level_only'' = None \<longrightarrow> base_level_only b = PyBool True)
         \<and> (map_of kwargs ''vector_dtype'' = None \<longrightarrow> vector_dtype b = PyDataType FLOAT)
         \<and> (\<forall>v. map_of kwargs ''ef_search'' = Some v \<longrightarrow> ef_search b = v)
         \<and> (\<forall>v. map_of kwargs ''ef_construction'' = Some v \<longrightarrow> ef_construction b = v)
         \<and> (\<forall>v. map_of kwargs ''base_level_only'' = Some v \<longrightarrow> base_level_only b = v)
         \<and> (\<forall>v. map_of kwargs ''vector_dtype'' = Some v \<longrightarrow> vector_dtype b = v)))"
proof (intro conjI impI)
  assume "k \<in> set (map fst kwargs) \<and> k \<notin> set field_names"
  then show "\<exists>e. from_dict (Some kwargs) w = (Inl e, w) \<and> exc_class e = TypeError"
    using init_unknown_key [of k kwargs w] by (simp add: from_dict_Some)
next
  assume "set (map fst kwargs) \<subseteq> set field_names"
  then show "\<exists>b. from_dict (Some kwargs) w =
        (Inr (length (heap w)), w\<lparr>heap := heap w @ [BuilderObj b]\<rparr>)
         \<and> (map_of kwargs ''ef_search'' = None \<longrightarrow> ef_search b = PyInt 100)
         \<and> (map_of kwargs ''ef_construction'' = None \<longrightarrow> ef_construction b = PyInt 100)
         \<and> (map_of kwargs ''base_level_only'' = None \<longrightarrow> base_level_only b = PyBool True)
         \<and> (map_of kwargs ''vector_dtype'' = None \<longrightarrow> vector_dtype b = PyDataType FLOAT)
         \<and> (\<forall>v. map_of kwargs ''ef_search'' = Some v \<longrightarrow> ef_search b = v)
         \<and> (\<forall>v. map_of kwargs ''ef_construction'' = Some v \<longrightarrow> ef_construction b = v)
         \<and> (\<forall>v. map_of kwargs ''base_level_only'' = Some v \<longrightarrow> base_level_only b = v)
         \<and> (\<forall>v. map_of kwargs ''vector_dtype'' = Some v \<longrightarrow> vector_dtype b = v)"
    by (intro exI [of _ "\<lparr>ef_search = field_or kwargs ''ef_search'' (PyInt 100),
             ef_construction = field_or kwargs ''ef_construction'' (PyInt 100),
             base_level_only = field_or kwargs ''base_level_only'' (PyBool True),
             vector_dtype = field_or kwargs ''vector_dtype'' (PyDataType FLOAT)\<rparr>"])
      (simp add: from_dict_Some init_known_keys field_or_def)
qed

theorem from_dict_keys_witness:
  "(\<exists>e. from_dict (Some [(''ef_search'', PyInt 50), (''efSearch'', PyInt 7)])
            \<lparr>heap = [], trace = []\<rparr> = (Inl e, \<lparr>heap = [], trace = []\<rparr>)
        \<and> exc_class e = TypeError)
   \<and> from_dict (Some [(''ef_search'', PyInt 50), (''ef_construction'', PyInt 200),
                       (''base_level_only'', PyBool False)]) \<lparr>heap = [], trace = []\<rparr> =
       (Inr 0, \<lparr>heap = [BuilderObj round_trip_params], trace = []\<rparr>)"
proof -
  let ?w = "\<lparr>heap = [], trace = []\<rparr>"
  have 1: "''efSearch'' \<in> set (map fst [(''ef_search'', PyInt 50), (''efSearch'', PyInt 7)])
           \<and> ''efSearch'' \<notin> set field_names"
    by (simp add: field_names_def)
  have 2: "set (map fst [(''ef_search'', PyInt 50), (''ef_construction'', PyInt 200),
                       (''base_level_only'', PyBool False)]) \<subseteq> set field_names"
    by (simp add: field_names_def)
  from from_dict_keys [of "''efSearch''" "[(''ef_search'', PyInt 50), (''efSearch'', PyInt 7)]" ?w] 1
  have a: "\<exists>e. from_dict (Some [(''ef_search'', PyInt 50), (''efSearch'', PyInt 7)]) ?w = (Inl e, ?w)
        \<and> exc_class e = TypeError"
    by blast
  from from_dict_keys [of k "[(''ef_search'', PyInt 50), (''ef_construction'', PyInt 200),
                       (''base_level_only'', PyBool False)]" ?w for k] 2
  obtain b where "from_dict (Some [(''ef_search'', PyInt 50), (''ef_construction'', PyInt 200),
                       (''base_level_only'', PyBool False)]) ?w = (Inr 0, \<lparr>heap = [BuilderObj b], trace = []\<rparr>)"
    and "ef_search b = PyInt 50" and "ef_construction b = PyInt 200"
    and "base_level_only b = PyBool False" and "vector_dtype b = PyDataType FLOAT"
    by auto
  then have "from_dict (Some [(''ef_search'', PyInt 50), (''ef_construction'', PyInt 200),
                       (''base_level_only'', PyBool False)]) ?w =
       (Inr 0, \<lparr>heap = [BuilderObj round_trip_params], trace = []\<rparr>)"
    by (cases b) (simp add: round_trip_params_def)
  with a show ?thesis by blast
qed

text \<open>
  C9. \<open>from_dict(None)\<close> and \<open>from_dict({})\<close> both construct a builder with
  \<open>ef_search = 100\<close>, \<open>ef_construction = 100\<close>, \<open>base_level_only = True\<close> and
  \<open>vector_dtype = FLOAT\<close>.
\<close>

theorem from_dict_defaults:
  "from_dict None w =
     (Inr (length (heap w)),
      w\<lparr>heap := heap w @ [BuilderObj
            \<lparr>ef_search = PyInt 100, ef_construction = PyInt 100,
             base_level_only = PyBool True, vector_dtype = PyDataType FLOAT\<rparr>]\<rparr>)
   \<and> from_dict (Some []) w =
     (Inr (length (heap w)),
      w\<lparr>heap := heap w @ [BuilderObj
            \<lparr>ef_search = PyInt 100, ef_construction = PyInt 100,
             base_level_only = PyBool True, vector_dtype = PyDataType FLOAT\<rparr>]\<rparr>)"
  by (simp add: from_dict_def init_def alloc_def field_or_def field_names_def)

theorem from_dict_defaults_witness:
  "from_dict None \<lparr>heap = [], trace = []\<rparr> =
     (Inr 0, \<lparr>heap = [BuilderObj default_params], trace = []\<rparr>)
   \<and> from_dict (Some []) \<lparr>heap = [], trace = []\<rparr> =
     (Inr 0, \<lparr>heap = [BuilderObj default_params], trace = []\<rparr>)"
  using from_dict_defaults [of "\<lparr>heap = [], trace = []\<rparr>"]
  by (simp add: default_params_def)

text \<open>
  C10. The builder is an object of the store, and neither the conversion nor the write
  changes it: after either, returned or raised, the object at the reference of the
  builder is the builder with the same four fields.
\<close>

theorem builder_unchanged:
  assumes "deref w self = Some (BuilderObj cfg)"
  shows "deref (snd (convert_gpu_to_cpu_index env self b w)) self = Some (BuilderObj cfg)
     \<and> deref (snd (write_cpu_index env self b' path w)) self = Some (BuilderObj cfg)"
proof
  show "deref (snd (convert_gpu_to_cpu_index env self b w)) self = Some (BuilderObj cfg)"
  proof (cases "convert_gpu_to_cpu_index env self b w")
    case (Pair res w')
    show ?thesis
    proof (cases res)
      case (Inl e)
      with Pair convert_failure_keeps_stable [of env self b w e]
      have "same_stable w w'" by simp
      with assms Pair show ?thesis unfolding same_stable_def by (metis snd_conv stable.simps(1))
    next
      case (Inr out)
      with Pair have "convert_gpu_to_cpu_index env self b w = (Inr out, w')" by simp
      then have "deref w' self = Some (BuilderObj cfg)"
      proof (cases rule: convert_gpu_to_cpu_index_success)
        case (1 cfg' g m fam0 old fam)
        have fresh: "deref w (length (heap w)) = None" by (rule deref_fresh)
        from assms have "Suc (length (heap w)) \<noteq> self"
          by (auto simp: deref_def split: if_splits)
        with assms fresh 1(3) 1(5) show ?thesis unfolding 1(13) by auto
      qed
      with Pair show ?thesis by simp
    qed
  qed
  from preserves_write_cpu_index [of w env self b' path] same_stable_refl [of w]
  have "same_stable w (snd (write_cpu_index env self b' path w))"
    by (simp add: preserves_def)
  with assms show "deref (snd (write_cpu_index env self b' path w)) self = Some (BuilderObj cfg)"
    unfolding same_stable_def by (metis stable.simps(1))
qed

theorem builder_unchanged_witness:
  "deref (snd (convert_gpu_to_cpu_index quiet_env 0 3 (gpu_world round_trip_params Standard))) 0 =
     Some (BuilderObj round_trip_params)
   \<and> deref (snd (convert_gpu_to_cpu_index copy_fails_env 0 3
                   (gpu_world round_trip_params Standard))) 0 =
     Some (BuilderObj round_trip_params)
   \<and> deref (snd (write_cpu_index unwritable_env 0 3 ''/nonexistent/index.faiss''
                   (cpu_world default_params Standard))) 0 =
     Some (BuilderObj default_params)"
proof -
  have g: "deref (gpu_world round_trip_params Standard) 0 = Some (BuilderObj round_trip_params)"
    by (rule gpu_world_objects)
  have c: "deref (cpu_world default_params Standard) 0 = Some (BuilderObj default_params)"
    by (rule cpu_world_objects)
  from builder_unchanged [where env = quiet_env and b = 3, OF g]
    builder_unchanged [where env = copy_fails_env and b = 3, OF g]
    builder_unchanged [where env = unwritable_env and b' = 3
        and path = "''/nonexistent/index.faiss''", OF c]
  show ?thesis by simp
qed

end
